theory Spec2Isabelle
  imports Complex_Main
begin

section \<open>Python values and exceptions\<close>

text \<open>
  The parser works on whatever \<^verbatim>\<open>json.load\<close> returns, and Python checks no type before
  it runs an operation. The model keeps the values dynamically typed: a decoded JSON
  document is a \<open>pyval\<close>, and every operation that Python can refuse returns an error.

  A float is the number it denotes (the code never computes with one, it only compares
  and stores it), with the three special values JSON decoding accepts. A dictionary
  decoded from JSON has string keys and keeps insertion order, so it is an association
  list, looked up with \<open>map_of\<close>. \<open>PBytes\<close> is never part of a decoded document;
  \<^verbatim>\<open>urlparse\<close> produces it when it is given something that is not a string.
  Strings are lists of 8-bit characters.
\<close>

datatype pyfloat = Finite real | PosInf | NegInf | NaN

datatype pyval =
    PNone
  | PBool bool
  | PInt int
  | PFloat pyfloat
  | PStr string
  | PBytes string
  | PList "pyval list"
  | PDict "(string \<times> pyval) list"

datatype error =
    FileNotFoundError string
  | PermissionError
  | ValueError string
  | JSONDecodeError
  | TypeError
  | AttributeError
  | KeyError string
  | RegexError
  | UnicodeDecodeError

text \<open>Sequencing of two steps, the first of which may raise.\<close>

definition bind_err :: "error + 'a \<Rightarrow> ('a \<Rightarrow> error + 'b) \<Rightarrow> error + 'b" where
  "bind_err m f = (case m of Inl e \<Rightarrow> Inl e | Inr x \<Rightarrow> f x)"

text \<open>Truth value of an object, as \<^verbatim>\<open>if x\<close> and \<^verbatim>\<open>not x\<close> take it.\<close>

fun py_truthy :: "pyval \<Rightarrow> bool" where
  "py_truthy PNone = False"
| "py_truthy (PBool b) = b"
| "py_truthy (PInt i) = (i \<noteq> 0)"
| "py_truthy (PFloat x) = (x \<noteq> Finite 0)"
| "py_truthy (PStr s) = (s \<noteq> [])"
| "py_truthy (PBytes s) = (s \<noteq> [])"
| "py_truthy (PList xs) = (xs \<noteq> [])"
| "py_truthy (PDict kvs) = (kvs \<noteq> [])"

text \<open>\<^verbatim>\<open>a in b\<close> for two strings: \<open>a\<close> occurs in \<open>b\<close> as a contiguous piece.\<close>

fun starts_with :: "string \<Rightarrow> string \<Rightarrow> bool" where
  "starts_with [] s = True"
| "starts_with (c # cs) [] = False"
| "starts_with (c # cs) (d # ds) = (c = d \<and> starts_with cs ds)"

fun is_substring :: "string \<Rightarrow> string \<Rightarrow> bool" where
  "is_substring a [] = (a = [])"
| "is_substring a (c # cs) = (starts_with a (c # cs) \<or> is_substring a cs)"

text \<open>
  \<^verbatim>\<open>k in obj\<close> for a string \<open>k\<close>: key membership in a dictionary, element membership in a
  list, substring test in a string; every other object raises \<^verbatim>\<open>TypeError\<close>.
\<close>

fun py_contains :: "string \<Rightarrow> pyval \<Rightarrow> error + bool" where
  "py_contains k (PDict kvs) = Inr (map_of kvs k \<noteq> None)"
| "py_contains k (PList xs) = Inr (PStr k \<in> set xs)"
| "py_contains k (PStr s) = Inr (is_substring k s)"
| "py_contains k _ = Inl TypeError"

text \<open>\<^verbatim>\<open>obj[k]\<close> for a string \<open>k\<close>: only a dictionary can be indexed by a string.\<close>

fun py_getitem :: "pyval \<Rightarrow> string \<Rightarrow> error + pyval" where
  "py_getitem (PDict kvs) k = (case map_of kvs k of None \<Rightarrow> Inl (KeyError k) | Some v \<Rightarrow> Inr v)"
| "py_getitem _ k = Inl TypeError"

text \<open>\<^verbatim>\<open>obj.get(k, default)\<close>: only a dictionary has the method.\<close>

fun py_get :: "pyval \<Rightarrow> string \<Rightarrow> pyval \<Rightarrow> error + pyval" where
  "py_get (PDict kvs) k d = Inr (case map_of kvs k of None \<Rightarrow> d | Some v \<Rightarrow> v)"
| "py_get _ k d = Inl AttributeError"

text \<open>
  The items a \<^verbatim>\<open>for\<close> loop visits: the elements of a list, the keys of a dictionary,
  the characters of a string, the bytes of a bytes object; nothing else is iterable.
\<close>

fun py_iter :: "pyval \<Rightarrow> error + pyval list" where
  "py_iter (PList xs) = Inr xs"
| "py_iter (PDict kvs) = Inr (map (\<lambda>kv. PStr (fst kv)) kvs)"
| "py_iter (PStr s) = Inr (map (\<lambda>c. PStr [c]) s)"
| "py_iter (PBytes s) = Inr (map (\<lambda>c. PInt (of_char c)) s)"
| "py_iter _ = Inl TypeError"

text \<open>
  \<^verbatim>\<open>v == n\<close> for an integer \<open>n\<close>: Python compares numbers by value across \<^verbatim>\<open>bool\<close>,
  \<^verbatim>\<open>int\<close> and \<^verbatim>\<open>float\<close> (\<^verbatim>\<open>True == 1\<close>, \<^verbatim>\<open>200.0 == 200\<close>); nothing else equals an integer.
\<close>

fun py_eq_int :: "pyval \<Rightarrow> int \<Rightarrow> bool" where
  "py_eq_int (PBool b) n = ((if b then 1 else 0) = n)"
| "py_eq_int (PInt i) n = (i = n)"
| "py_eq_int (PFloat (Finite x)) n = (x = of_int n)"
| "py_eq_int _ n = False"

subsection \<open>Dictionaries built by the parser\<close>

text \<open>
  \<^verbatim>\<open>query_params\<close> and \<^verbatim>\<open>headers\<close> are filled by \<^verbatim>\<open>d[k] = v\<close> with keys taken from the
  document, so a key may be any hashable value. Lists and dictionaries are not hashable;
  numbers are one key when they are equal as numbers. A store on a key that is present
  replaces the value and keeps the key and its position.
\<close>

fun py_hashable :: "pyval \<Rightarrow> bool" where
  "py_hashable (PList xs) = False"
| "py_hashable (PDict kvs) = False"
| "py_hashable _ = True"

fun py_number :: "pyval \<Rightarrow> pyfloat option" where
  "py_number (PBool b) = Some (Finite (if b then 1 else 0))"
| "py_number (PInt i) = Some (Finite (of_int i))"
| "py_number (PFloat x) = Some x"
| "py_number _ = None"

definition py_key_eq :: "pyval \<Rightarrow> pyval \<Rightarrow> bool" where
  "py_key_eq a b =
     (case (py_number a, py_number b) of
        (Some x, Some y) \<Rightarrow> x = y
      | (None, None) \<Rightarrow> a = b
      | _ \<Rightarrow> False)"

fun dict_store :: "(pyval \<times> pyval) list \<Rightarrow> pyval \<Rightarrow> pyval \<Rightarrow> (pyval \<times> pyval) list" where
  "dict_store [] k v = [(k, v)]"
| "dict_store ((k', v') # d) k v =
     (if py_key_eq k' k then (k', v) # d else (k', v') # dict_store d k v)"

definition py_setitem ::
  "(pyval \<times> pyval) list \<Rightarrow> pyval \<Rightarrow> pyval \<Rightarrow> error + (pyval \<times> pyval) list" where
  "py_setitem d k v = (if py_hashable k then Inr (dict_store d k v) else Inl TypeError)"

section \<open>Endpoint records\<close>

text \<open>The dictionary \<^verbatim>\<open>endpoint_info\<close> has a fixed set of keys: a record.\<close>

record endpoint =
  url :: pyval "method" :: pyval
  protocol :: pyval domain :: pyval path :: pyval
  query_params :: "(pyval \<times> pyval) list"
  headers :: "(pyval \<times> pyval) list"
  post_data :: pyval
  status_code :: pyval
  response_size :: pyval
  time :: pyval

section \<open>The standard library the parser calls\<close>

text \<open>
  \<^verbatim>\<open>urllib.parse.urlparse\<close>, \<^verbatim>\<open>re.search\<close>, \<^verbatim>\<open>json.loads\<close>, \<^verbatim>\<open>json.dump\<close> and \<^verbatim>\<open>str\<close> are not part
  of the repository. The parser is modelled over any implementation of them:
  \<^item> \<open>urlparse\<close> returns the parse result or raises; of the six components the parser
    reads the scheme, the network location and the path;
  \<^item> \<open>re_search p s\<close> tells whether \<^verbatim>\<open>re.search(p, s)\<close> finds a match, or raises;
  \<^item> \<open>json_decode s\<close> is the value of the JSON text \<open>s\<close>, \<open>None\<close> when \<open>s\<close> is not JSON;
  \<^item> \<open>json_dump rs\<close> is the text \<^verbatim>\<open>json.dump(rs, f, indent=2)\<close> writes, or raises;
  \<^item> \<open>py_str v\<close> is \<^verbatim>\<open>str(v)\<close>.
\<close>

record parse_result =
  url_scheme :: pyval
  url_netloc :: pyval
  url_path :: pyval

record pylib =
  urlparse :: "pyval \<Rightarrow> error + parse_result"
  re_search :: "string \<Rightarrow> pyval \<Rightarrow> error + bool"
  json_decode :: "string \<Rightarrow> pyval option"
  json_dump :: "endpoint list \<Rightarrow> error + string"
  py_str :: "pyval \<Rightarrow> string"

text \<open>
  \<^verbatim>\<open>json.loads(v)\<close>: a string is decoded, \<^verbatim>\<open>JSONDecodeError\<close> when it is not JSON; a bytes
  object is decoded as its text; any other argument raises \<^verbatim>\<open>TypeError\<close>.
\<close>

fun json_loads :: "pylib \<Rightarrow> pyval \<Rightarrow> error + pyval" where
  "json_loads L (PStr s) = (case json_decode L s of None \<Rightarrow> Inl JSONDecodeError | Some v \<Rightarrow> Inr v)"
| "json_loads L (PBytes s) = (case json_decode L s of None \<Rightarrow> Inl JSONDecodeError | Some v \<Rightarrow> Inr v)"
| "json_loads L _ = Inl TypeError"

section \<open>Endpoint extraction\<close>

text \<open>
  The two flattening loops
  \<^verbatim>\<open>for param in ...: d[param.get('name', '')] = param.get('value', '')\<close>.
\<close>

fun name_value_loop :: "pyval list \<Rightarrow> (pyval \<times> pyval) list \<Rightarrow> error + (pyval \<times> pyval) list" where
  "name_value_loop [] d = Inr d"
| "name_value_loop (param # rest) d =
     bind_err (py_get param ''value'' (PStr '''')) (\<lambda>v.
     bind_err (py_get param ''name'' (PStr '''')) (\<lambda>k.
     bind_err (py_setitem d k v) (\<lambda>d'.
     name_value_loop rest d')))"

definition flatten_pairs :: "pyval \<Rightarrow> string \<Rightarrow> error + (pyval \<times> pyval) list" where
  "flatten_pairs request key =
     bind_err (py_get request key (PList [])) (\<lambda>items.
     bind_err (py_iter items) (\<lambda>params.
     name_value_loop params []))"

text \<open>
  The request body: absent without a \<^verbatim>\<open>postData\<close> key; otherwise its \<^verbatim>\<open>text\<close>, replaced by
  the decoded value when \<^verbatim>\<open>json.loads\<close> accepts it (\<^verbatim>\<open>JSONDecodeError\<close> and \<^verbatim>\<open>TypeError\<close>
  are caught).
\<close>

definition extract_post_data :: "pylib \<Rightarrow> pyval \<Rightarrow> error + pyval" where
  "extract_post_data L request =
     bind_err (py_contains ''postData'' request) (\<lambda>has_body.
     if \<not> has_body then Inr PNone
     else
       bind_err (py_getitem request ''postData'') (\<lambda>body.
       bind_err (py_get body ''text'' (PStr '''')) (\<lambda>post_data.
       case json_loads L post_data of
         Inr parsed \<Rightarrow> Inr parsed
       | Inl JSONDecodeError \<Rightarrow> Inr post_data
       | Inl TypeError \<Rightarrow> Inr post_data
       | Inl e \<Rightarrow> Inl e)))"

text \<open>
  The body of the loop of \<^verbatim>\<open>get_endpoints\<close> for one entry, statement by statement:
  \<open>Inr None\<close> is \<^verbatim>\<open>continue\<close>, \<open>Inr (Some info)\<close> is the record that is appended. A filter
  argument is unset (\<open>None\<close>) or given; the source tests \<^verbatim>\<open>if domain and ...\<close>, so a given
  empty string or a given 0 does not filter either.
\<close>

definition str_filter_rejects :: "string option \<Rightarrow> pyval \<Rightarrow> bool" where
  "str_filter_rejects flt v = (case flt of None \<Rightarrow> False | Some s \<Rightarrow> s \<noteq> [] \<and> v \<noteq> PStr s)"

definition status_filter_rejects :: "int option \<Rightarrow> pyval \<Rightarrow> bool" where
  "status_filter_rejects flt v = (case flt of None \<Rightarrow> False | Some n \<Rightarrow> n \<noteq> 0 \<and> \<not> py_eq_int v n)"

definition pattern_filter_rejects :: "pylib \<Rightarrow> string option \<Rightarrow> pyval \<Rightarrow> error + bool" where
  "pattern_filter_rejects L flt v =
     (case flt of
        None \<Rightarrow> Inr False
      | Some p \<Rightarrow> if p = [] then Inr False
                  else bind_err (re_search L p v) (\<lambda>found. Inr (\<not> found)))"

definition build_endpoint ::
  "pylib \<Rightarrow> pyval \<Rightarrow> pyval \<Rightarrow> pyval \<Rightarrow> pyval \<Rightarrow> parse_result \<Rightarrow> pyval \<Rightarrow> pyval \<Rightarrow> error + endpoint" where
  "build_endpoint L entry request response url_v parsed_url request_method response_status =
     bind_err (flatten_pairs request ''queryString'') (\<lambda>query_params_v.
     bind_err (flatten_pairs request ''headers'') (\<lambda>headers_v.
     bind_err (extract_post_data L request) (\<lambda>post_data_v.
     bind_err (py_get response ''bodySize'' (PInt 0)) (\<lambda>body_size.
     bind_err (py_get entry ''time'' (PInt 0)) (\<lambda>time_v.
     Inr \<lparr> url = url_v,
           method = request_method,
           protocol = url_scheme parsed_url,
           domain = url_netloc parsed_url,
           path = url_path parsed_url,
           query_params = query_params_v,
           headers = headers_v,
           post_data = post_data_v,
           status_code = response_status,
           response_size = body_size,
           time = time_v \<rparr>)))))"

definition process_entry ::
  "pylib \<Rightarrow> string option \<Rightarrow> string option \<Rightarrow> int option \<Rightarrow> string option \<Rightarrow> pyval
     \<Rightarrow> error + endpoint option" where
  "process_entry L domain_f method_f status_f pattern_f entry =
     bind_err (py_get entry ''request'' (PDict [])) (\<lambda>request.
     bind_err (py_get entry ''response'' (PDict [])) (\<lambda>response.
     bind_err (py_get request ''url'' (PStr '''')) (\<lambda>url_v.
     bind_err (urlparse L url_v) (\<lambda>parsed_url.
     if str_filter_rejects domain_f (url_netloc parsed_url) then Inr None
     else
       bind_err (py_get request ''method'' (PStr '''')) (\<lambda>request_method.
       if str_filter_rejects method_f request_method then Inr None
       else
         bind_err (py_get response ''status'' (PInt 0)) (\<lambda>response_status.
         if status_filter_rejects status_f response_status then Inr None
         else
           bind_err (pattern_filter_rejects L pattern_f (url_path parsed_url)) (\<lambda>rejected.
           if rejected then Inr None
           else
             bind_err (build_endpoint L entry request response url_v parsed_url
                         request_method response_status) (\<lambda>endpoint_info.
             Inr (Some endpoint_info)))))))))"

text \<open>The loop itself: \<^verbatim>\<open>endpoints\<close> is the list built so far.\<close>

fun endpoints_loop ::
  "(pyval \<Rightarrow> error + endpoint option) \<Rightarrow> pyval list \<Rightarrow> endpoint list \<Rightarrow> error + endpoint list" where
  "endpoints_loop body [] endpoints = Inr endpoints"
| "endpoints_loop body (entry # rest) endpoints =
     (case body entry of
        Inl e \<Rightarrow> Inl e
      | Inr None \<Rightarrow> endpoints_loop body rest endpoints
      | Inr (Some endpoint_info) \<Rightarrow> endpoints_loop body rest (endpoints @ [endpoint_info]))"

definition get_endpoints ::
  "pylib \<Rightarrow> pyval \<Rightarrow> string option \<Rightarrow> string option \<Rightarrow> int option \<Rightarrow> string option
     \<Rightarrow> error + endpoint list" where
  "get_endpoints L har_data domain_f method_f status_f pattern_f =
     bind_err (py_contains ''log'' har_data) (\<lambda>has_log.
     if \<not> has_log then Inr []
     else
       bind_err (py_getitem har_data ''log'') (\<lambda>log_v.
       bind_err (py_contains ''entries'' log_v) (\<lambda>has_entries.
       if \<not> has_entries then Inr []
       else
         bind_err (py_getitem log_v ''entries'') (\<lambda>entries.
         bind_err (py_iter entries) (\<lambda>items.
         endpoints_loop (process_entry L domain_f method_f status_f pattern_f) items [])))))"

section \<open>Unique domains\<close>

fun domains_loop :: "pylib \<Rightarrow> pyval list \<Rightarrow> pyval set \<Rightarrow> error + pyval set" where
  "domains_loop L [] domains = Inr domains"
| "domains_loop L (entry # rest) domains =
     bind_err (py_get entry ''request'' (PDict [])) (\<lambda>request.
     bind_err (py_get request ''url'' (PStr '''')) (\<lambda>url_v.
     bind_err (urlparse L url_v) (\<lambda>parsed_url.
     domains_loop L rest (insert (url_netloc parsed_url) domains))))"

definition get_unique_domains :: "pylib \<Rightarrow> pyval \<Rightarrow> error + pyval set" where
  "get_unique_domains L har_data =
     bind_err (py_contains ''log'' har_data) (\<lambda>has_log.
     if \<not> has_log then Inr {}
     else
       bind_err (py_getitem har_data ''log'') (\<lambda>log_v.
       bind_err (py_contains ''entries'' log_v) (\<lambda>has_entries.
       if \<not> has_entries then Inr {}
       else
         bind_err (py_getitem log_v ''entries'') (\<lambda>entries.
         bind_err (py_iter entries) (\<lambda>items.
         domains_loop L items {})))))"

section \<open>API endpoints\<close>

text \<open>The six default patterns; \<open>CHR 0x5C\<close> is the backslash.\<close>

definition default_api_patterns :: "string list" where
  "default_api_patterns =
     [''/api/'',
      ''/v'' @ [CHR 0x5C] @ ''d+/'',
      ''/rest/'',
      ''/graphql'',
      ''/gql'',
      [CHR 0x5C] @ ''.json$'']"

text \<open>\<^verbatim>\<open>sep.join(items)\<close>.\<close>

fun str_join :: "string \<Rightarrow> string list \<Rightarrow> string" where
  "str_join sep [] = []"
| "str_join sep [x] = x"
| "str_join sep (x # y # ys) = x @ sep @ str_join sep (y # ys)"

definition get_api_endpoints :: "pylib \<Rightarrow> pyval \<Rightarrow> string list option \<Rightarrow> error + endpoint list" where
  "get_api_endpoints L har_data api_patterns =
     (let patterns = (case api_patterns of None \<Rightarrow> default_api_patterns | Some ps \<Rightarrow> ps);
          pattern = str_join ''|'' patterns
      in get_endpoints L har_data None None None (Some pattern))"

section \<open>Export\<close>

text \<open>
  \<^verbatim>\<open>os.path.splitext(p)[1]\<close> with \<open>/\<close> as the separator: the extension starts at the last
  dot of the last path component, and leading dots of that component do not count.
\<close>

definition basename :: "string \<Rightarrow> string" where
  "basename p = rev (takeWhile (\<lambda>c. c \<noteq> CHR ''/'') (rev p))"

definition splitext_ext :: "string \<Rightarrow> string" where
  "splitext_ext p =
     (let name = dropWhile (\<lambda>c. c = CHR ''.'') (basename p)
      in if CHR ''.'' \<in> set name
         then CHR ''.'' # rev (takeWhile (\<lambda>c. c \<noteq> CHR ''.'') (rev name))
         else [])"

text \<open>\<^verbatim>\<open>str.lower\<close> on code points below 256.\<close>

definition lower_char :: "char \<Rightarrow> char" where
  "lower_char c =
     (let n = (of_char c :: nat)
      in if (65 \<le> n \<and> n \<le> 90) \<or> (192 \<le> n \<and> n \<le> 222 \<and> n \<noteq> 215)
         then char_of (n + 32) else c)"

definition str_lower :: "string \<Rightarrow> string" where
  "str_lower s = map lower_char s"

text \<open>
  The CSV writer with its default dialect: \<^verbatim>\<open>None\<close> is written as the empty field, a
  string as it is, anything else through \<^verbatim>\<open>str\<close>; a field holding a comma, a double
  quote, a carriage return or a line feed is enclosed in double quotes, with every
  double quote inside it doubled; fields are joined by commas and a row ends with
  carriage return and line feed.
\<close>

definition csv_field_text :: "pylib \<Rightarrow> pyval \<Rightarrow> string" where
  "csv_field_text L v = (case v of PNone \<Rightarrow> [] | PStr s \<Rightarrow> s | _ \<Rightarrow> py_str L v)"

definition csv_special :: "char \<Rightarrow> bool" where
  "csv_special c = (c = CHR '','' \<or> c = CHR 0x22 \<or> c = CHR 0x0D \<or> c = CHR 0x0A)"

definition csv_quote :: "string \<Rightarrow> string" where
  "csv_quote s =
     (if list_ex csv_special s
      then [CHR 0x22] @ concat (map (\<lambda>c. if c = CHR 0x22 then [c, c] else [c]) s) @ [CHR 0x22]
      else s)"

definition csv_row :: "string list \<Rightarrow> string" where
  "csv_row cells = str_join '','' (map csv_quote cells) @ [CHR 0x0D, CHR 0x0A]"

text \<open>
  \<^verbatim>\<open>csv.DictWriter\<close>: a row dictionary is written in the order of \<^verbatim>\<open>fieldnames\<close>, a missing
  key as the empty field; \<^verbatim>\<open>writeheader\<close> writes the field names themselves.
\<close>

definition dictwriter_row :: "pylib \<Rightarrow> string list \<Rightarrow> (string \<times> pyval) list \<Rightarrow> string" where
  "dictwriter_row L fieldnames rowdict =
     csv_row (map (\<lambda>key. case map_of rowdict key of None \<Rightarrow> [] | Some v \<Rightarrow> csv_field_text L v)
                  fieldnames)"

definition dictwriter_header :: "string list \<Rightarrow> string" where
  "dictwriter_header fieldnames = csv_row fieldnames"

text \<open>The dictionary \<^verbatim>\<open>flat_ep\<close>, in the order its keys are written.\<close>

definition flat_ep :: "endpoint \<Rightarrow> (string \<times> pyval) list" where
  "flat_ep ep =
     [(''url'', url ep),
      (''method'', method ep),
      (''protocol'', protocol ep),
      (''domain'', domain ep),
      (''path'', path ep),
      (''status_code'', status_code ep),
      (''response_size'', response_size ep),
      (''time'', time ep)]"

text \<open>
  \<^verbatim>\<open>export_endpoints\<close> returns the text it writes to \<^verbatim>\<open>output_file\<close>, or the exception it
  raises. Opening the output file for writing is taken to succeed.
\<close>

definition export_endpoints :: "pylib \<Rightarrow> endpoint list \<Rightarrow> string \<Rightarrow> error + string" where
  "export_endpoints L endpoints output_file =
     (let file_ext = str_lower (splitext_ext output_file)
      in if file_ext = ''.json'' then json_dump L endpoints
         else if file_ext = ''.csv'' then
           (case map flat_ep endpoints of
              [] \<Rightarrow> Inr ''No endpoints found''
            | first # others \<Rightarrow>
                (let flattened = first # others;
                     fieldnames = map fst first
                 in Inr (dictwriter_header fieldnames
                         @ concat (map (dictwriter_row L fieldnames) flattened))))
         else Inl (ValueError (''Unsupported file format: '' @ file_ext)))"

section \<open>Loading\<close>

text \<open>
  What the file system holds at the path given to the parser: nothing, a file the process
  may not read, or a file with its text. \<^verbatim>\<open>open\<close> raises \<^verbatim>\<open>FileNotFoundError\<close> for the first
  and \<^verbatim>\<open>PermissionError\<close> for the second.
\<close>

datatype source = Missing | Unreadable | Text string

definition open_read :: "source \<Rightarrow> error + string" where
  "open_read src =
     (case src of
        Missing \<Rightarrow> Inl (FileNotFoundError ''[Errno 2] No such file or directory'')
      | Unreadable \<Rightarrow> Inl PermissionError
      | Text s \<Rightarrow> Inr s)"

text \<open>
  \<^verbatim>\<open>_load_har_file\<close>: the two \<^verbatim>\<open>except\<close> clauses replace \<^verbatim>\<open>JSONDecodeError\<close> by a
  \<^verbatim>\<open>ValueError\<close> and \<^verbatim>\<open>FileNotFoundError\<close> by one with the parser's own message; any other
  exception passes through. Constructing a \<^verbatim>\<open>HarParser\<close> is this call.
\<close>

definition load_har_file :: "pylib \<Rightarrow> string \<Rightarrow> source \<Rightarrow> error + pyval" where
  "load_har_file L har_file_path src =
     (case bind_err (open_read src) (\<lambda>text. json_loads L (PStr text)) of
        Inl JSONDecodeError \<Rightarrow> Inl (ValueError (''Invalid HAR file format: '' @ har_file_path))
      | Inl (FileNotFoundError msg) \<Rightarrow> Inl (FileNotFoundError (''HAR file not found: '' @ har_file_path))
      | r \<Rightarrow> r)"

section \<open>What the claims speak of\<close>

subsection \<open>The entries of a document and what the filters read\<close>

text \<open>
  The transaction entries of a document are the items the loops of \<^verbatim>\<open>get_endpoints\<close> and
  \<^verbatim>\<open>get_unique_domains\<close> visit: none when the \<^verbatim>\<open>log\<close> or the \<^verbatim>\<open>entries\<close> key is not found.
\<close>

definition doc_entries :: "pyval \<Rightarrow> error + pyval list" where
  "doc_entries har_data =
     bind_err (py_contains ''log'' har_data) (\<lambda>has_log.
     if \<not> has_log then Inr []
     else
       bind_err (py_getitem har_data ''log'') (\<lambda>log_v.
       bind_err (py_contains ''entries'' log_v) (\<lambda>has_entries.
       if \<not> has_entries then Inr []
       else
         bind_err (py_getitem log_v ''entries'') (\<lambda>entries.
         py_iter entries))))"

text \<open>
  What a filter reads of an entry: the parsed request URL, the request method, the
  response status, each with the default the parser takes when the key is absent.
\<close>

definition entry_url_parts :: "pylib \<Rightarrow> pyval \<Rightarrow> error + parse_result" where
  "entry_url_parts L entry =
     bind_err (py_get entry ''request'' (PDict [])) (\<lambda>request.
     bind_err (py_get request ''url'' (PStr [])) (\<lambda>url_v.
     urlparse L url_v))"

definition entry_method :: "pyval \<Rightarrow> error + pyval" where
  "entry_method entry =
     bind_err (py_get entry ''request'' (PDict [])) (\<lambda>request.
     py_get request ''method'' (PStr []))"

definition entry_status :: "pyval \<Rightarrow> error + pyval" where
  "entry_status entry =
     bind_err (py_get entry ''response'' (PDict [])) (\<lambda>response.
     py_get response ''status'' (PInt 0))"

text \<open>
  An entry passes a filter when the filter is not active (unset, the empty string, 0) or
  the value it reads is the one asked for: the network location and the method by
  equality of strings, the status by equality with the integer, the path by a match of
  \<^verbatim>\<open>re.search\<close>.
\<close>

definition domain_filter_passes :: "pylib \<Rightarrow> string option \<Rightarrow> pyval \<Rightarrow> bool" where
  "domain_filter_passes L flt entry =
     (case flt of
        None \<Rightarrow> True
      | Some d \<Rightarrow> d = [] \<or>
          (case entry_url_parts L entry of Inr u \<Rightarrow> url_netloc u = PStr d | Inl e \<Rightarrow> False))"

definition method_filter_passes :: "string option \<Rightarrow> pyval \<Rightarrow> bool" where
  "method_filter_passes flt entry =
     (case flt of
        None \<Rightarrow> True
      | Some m \<Rightarrow> m = [] \<or> entry_method entry = Inr (PStr m))"

definition status_filter_passes :: "int option \<Rightarrow> pyval \<Rightarrow> bool" where
  "status_filter_passes flt entry =
     (case flt of
        None \<Rightarrow> True
      | Some n \<Rightarrow> n = 0 \<or>
          (case entry_status entry of Inr v \<Rightarrow> py_eq_int v n | Inl e \<Rightarrow> False))"

definition pattern_filter_passes :: "pylib \<Rightarrow> string option \<Rightarrow> pyval \<Rightarrow> bool" where
  "pattern_filter_passes L flt entry =
     (case flt of
        None \<Rightarrow> True
      | Some p \<Rightarrow> p = [] \<or>
          (case entry_url_parts L entry of
             Inr u \<Rightarrow> re_search L p (url_path u) = Inr True
           | Inl e \<Rightarrow> False))"

definition passes_all_filters ::
  "pylib \<Rightarrow> string option \<Rightarrow> string option \<Rightarrow> int option \<Rightarrow> string option \<Rightarrow> pyval \<Rightarrow> bool" where
  "passes_all_filters L d m s p entry =
     (domain_filter_passes L d entry \<and> method_filter_passes m entry
      \<and> status_filter_passes s entry \<and> pattern_filter_passes L p entry)"

text \<open>The record of an entry: what the loop body builds for it when no filter is given.\<close>

definition entry_record :: "pylib \<Rightarrow> pyval \<Rightarrow> error + endpoint option" where
  "entry_record L entry = process_entry L None None None None entry"

text \<open>The four tests of the loop body, read off a finished record.\<close>

definition record_passes ::
  "pylib \<Rightarrow> string option \<Rightarrow> string option \<Rightarrow> int option \<Rightarrow> string option \<Rightarrow> endpoint \<Rightarrow> bool" where
  "record_passes L d m s p r =
     (\<not> str_filter_rejects d (domain r) \<and> \<not> str_filter_rejects m (method r)
      \<and> \<not> status_filter_rejects s (status_code r)
      \<and> pattern_filter_rejects L p (path r) = Inr False)"

subsection \<open>The filters in another order\<close>

text \<open>
  To say that the order of the four tests does not matter, the loop body is written once
  more with the order as an argument. Each test keeps the statement that reads its
  value (\<^verbatim>\<open>request.get('method', '')\<close> belongs to the method test,
  \<^verbatim>\<open>response.get('status', 0)\<close> to the status test); the first test that rejects ends the
  entry, as \<^verbatim>\<open>continue\<close> does. The source's order is domain, method, status, pattern.
\<close>

datatype filter_kind = ByDomain | ByMethod | ByStatus | ByPattern

fun filter_rejects ::
  "pylib \<Rightarrow> string option \<Rightarrow> string option \<Rightarrow> int option \<Rightarrow> string option
     \<Rightarrow> pyval \<Rightarrow> pyval \<Rightarrow> parse_result \<Rightarrow> filter_kind \<Rightarrow> error + bool" where
  "filter_rejects L d m s p request response parsed_url ByDomain =
     Inr (str_filter_rejects d (url_netloc parsed_url))"
| "filter_rejects L d m s p request response parsed_url ByMethod =
     bind_err (py_get request ''method'' (PStr [])) (\<lambda>request_method.
     Inr (str_filter_rejects m request_method))"
| "filter_rejects L d m s p request response parsed_url ByStatus =
     bind_err (py_get response ''status'' (PInt 0)) (\<lambda>response_status.
     Inr (status_filter_rejects s response_status))"
| "filter_rejects L d m s p request response parsed_url ByPattern =
     pattern_filter_rejects L p (url_path parsed_url)"

fun first_rejection :: "(filter_kind \<Rightarrow> error + bool) \<Rightarrow> filter_kind list \<Rightarrow> error + bool" where
  "first_rejection test [] = Inr False"
| "first_rejection test (k # ks) =
     bind_err (test k) (\<lambda>rejected. if rejected then Inr True else first_rejection test ks)"

definition process_entry_in_order ::
  "filter_kind list \<Rightarrow> pylib \<Rightarrow> string option \<Rightarrow> string option \<Rightarrow> int option \<Rightarrow> string option
     \<Rightarrow> pyval \<Rightarrow> error + endpoint option" where
  "process_entry_in_order order L d m s p entry =
     bind_err (py_get entry ''request'' (PDict [])) (\<lambda>request.
     bind_err (py_get entry ''response'' (PDict [])) (\<lambda>response.
     bind_err (py_get request ''url'' (PStr [])) (\<lambda>url_v.
     bind_err (urlparse L url_v) (\<lambda>parsed_url.
     bind_err (first_rejection (filter_rejects L d m s p request response parsed_url) order)
       (\<lambda>rejected.
     if rejected then Inr None
     else
       bind_err (py_get request ''method'' (PStr [])) (\<lambda>request_method.
       bind_err (py_get response ''status'' (PInt 0)) (\<lambda>response_status.
       bind_err (build_endpoint L entry request response url_v parsed_url
                   request_method response_status) (\<lambda>endpoint_info.
       Inr (Some endpoint_info)))))))))"

definition get_endpoints_in_order ::
  "filter_kind list \<Rightarrow> pylib \<Rightarrow> pyval \<Rightarrow> string option \<Rightarrow> string option \<Rightarrow> int option
     \<Rightarrow> string option \<Rightarrow> error + endpoint list" where
  "get_endpoints_in_order order L har_data d m s p =
     bind_err (doc_entries har_data) (\<lambda>items.
     endpoints_loop (process_entry_in_order order L d m s p) items [])"

section \<open>A library for the worked examples\<close>

text \<open>
  The theorems below hold for every library. The examples need one to run on. Its
  \<open>urlparse\<close> follows \<^verbatim>\<open>urllib.parse\<close> of CPython; its \<open>re.search\<close>, JSON decoder and
  \<^verbatim>\<open>str\<close> cover a fragment each, named where they are defined, and the examples stay
  inside the fragments.
\<close>

subsection \<open>urlparse\<close>

text \<open>
  \<^verbatim>\<open>urlsplit\<close>: leading control characters and spaces are stripped, tabs and line breaks
  removed; a scheme is a leading run of scheme characters that starts with a letter and
  ends at the first colon; the network location follows \<open>//\<close> and runs to the next
  \<open>/\<close>, \<open>?\<close> or \<open>#\<close>; a network location with one square bracket and not the other raises
  \<^verbatim>\<open>ValueError("Invalid IPv6 URL")\<close>; the path ends at the first \<open>#\<close> or \<open>?\<close>. \<^verbatim>\<open>urlparse\<close>
  then cuts the parameters (after \<open>;\<close> in the last path segment) off the path. The
  checks of what stands between matched brackets and of the normal form of the network
  location are left out.
\<close>

definition c0_control_or_space :: "char \<Rightarrow> bool" where
  "c0_control_or_space c = ((of_char c :: nat) \<le> 32)"

definition unsafe_url_char :: "char \<Rightarrow> bool" where
  "unsafe_url_char c = (c = CHR 0x09 \<or> c = CHR 0x0A \<or> c = CHR 0x0D)"

definition ascii_alpha :: "char \<Rightarrow> bool" where
  "ascii_alpha c = (let n = (of_char c :: nat) in (65 \<le> n \<and> n \<le> 90) \<or> (97 \<le> n \<and> n \<le> 122))"

definition ascii_digit :: "char \<Rightarrow> bool" where
  "ascii_digit c = (let n = (of_char c :: nat) in 48 \<le> n \<and> n \<le> 57)"

definition scheme_char :: "char \<Rightarrow> bool" where
  "scheme_char c = (ascii_alpha c \<or> ascii_digit c \<or> c = CHR ''+'' \<or> c = CHR ''-'' \<or> c = CHR ''.'')"

definition split_scheme :: "string \<Rightarrow> string \<times> string" where
  "split_scheme u =
     (let pre = takeWhile (\<lambda>c. c \<noteq> CHR '':'') u
      in case (pre, dropWhile (\<lambda>c. c \<noteq> CHR '':'') u) of
           (c # cs, colon # rest) \<Rightarrow>
             if ascii_alpha c \<and> list_all scheme_char pre
             then (str_lower pre, rest) else ([], u)
         | _ \<Rightarrow> ([], u))"

definition netloc_end :: "char \<Rightarrow> bool" where
  "netloc_end c = (c = CHR ''/'' \<or> c = CHR ''?'' \<or> c = CHR ''#'')"

definition split_netloc :: "string \<Rightarrow> string \<times> string" where
  "split_netloc u =
     (if starts_with ''//'' u
      then (takeWhile (\<lambda>c. \<not> netloc_end c) (drop 2 u), dropWhile (\<lambda>c. \<not> netloc_end c) (drop 2 u))
      else ([], u))"

definition urlsplit :: "string \<Rightarrow> error + string \<times> string \<times> string" where
  "urlsplit u =
     (let u1 = filter (\<lambda>c. \<not> unsafe_url_char c) (dropWhile c0_control_or_space u);
          (scheme, u2) = split_scheme u1;
          (netloc, u3) = split_netloc u2
      in if (CHR ''['' \<in> set netloc \<and> CHR '']'' \<notin> set netloc)
            \<or> (CHR '']'' \<in> set netloc \<and> CHR ''['' \<notin> set netloc)
         then Inl (ValueError ''Invalid IPv6 URL'')
         else Inr (scheme, netloc,
                   takeWhile (\<lambda>c. c \<noteq> CHR ''?'') (takeWhile (\<lambda>c. c \<noteq> CHR ''#'') u3)))"

definition uses_params :: "string list" where
  "uses_params = ['''', ''ftp'', ''hdl'', ''prospero'', ''http'', ''imap'', ''https'', ''shttp'',
                  ''rtsp'', ''rtspu'', ''sip'', ''sips'', ''mms'', ''sftp'', ''tel'']"

definition split_params :: "string \<Rightarrow> string" where
  "split_params p =
     (let last_segment = rev (takeWhile (\<lambda>c. c \<noteq> CHR ''/'') (rev p))
      in take (length p - length last_segment) p
         @ takeWhile (\<lambda>c. c \<noteq> CHR '';'') last_segment)"

definition urlparse_text :: "string \<Rightarrow> error + string \<times> string \<times> string" where
  "urlparse_text u =
     bind_err (urlsplit u) (\<lambda>(scheme, netloc, p).
     Inr (scheme, netloc,
          if scheme \<in> set uses_params \<and> CHR '';'' \<in> set p then split_params p else p))"

text \<open>
  An argument that is not a string is decoded first: a false one (\<^verbatim>\<open>None\<close>, 0, an empty
  container) counts as empty bytes, any other object without a \<^verbatim>\<open>decode\<close> method raises
  \<^verbatim>\<open>AttributeError\<close>; the components then come back as bytes.
\<close>

definition cpython_urlparse :: "pyval \<Rightarrow> error + parse_result" where
  "cpython_urlparse v =
     (case v of
        PStr u \<Rightarrow>
          bind_err (urlparse_text u) (\<lambda>(scheme, netloc, p).
          Inr \<lparr> url_scheme = PStr scheme, url_netloc = PStr netloc, url_path = PStr p \<rparr>)
      | PBytes u \<Rightarrow>
          if list_all (\<lambda>c. (of_char c :: nat) < 128) u
          then bind_err (urlparse_text u) (\<lambda>(scheme, netloc, p).
               Inr \<lparr> url_scheme = PBytes scheme, url_netloc = PBytes netloc, url_path = PBytes p \<rparr>)
          else Inl UnicodeDecodeError
      | _ \<Rightarrow>
          if py_truthy v then Inl AttributeError
          else Inr \<lparr> url_scheme = PBytes [], url_netloc = PBytes [], url_path = PBytes [] \<rparr>)"

subsection \<open>re.search on a fragment of the pattern language\<close>

text \<open>
  The fragment: literal characters, an escaped character that is no letter or digit,
  the escaped \<open>d\<close> (a decimal digit), the dot, \<open>^\<close> and \<open>$\<close>, the quantifiers \<open>+\<close>, \<open>*\<close> and \<open>?\<close> on a single character,
  and alternation; the six default API patterns lie in it. Matching goes by derivatives.
  A pattern Python rejects (a quantifier with nothing to repeat, a lone backslash) raises
  \<open>RegexError\<close>; so does, in this instance only, a pattern with brackets, braces, other
  escapes or a quantifier on a quantifier, which the fragment does not cover. A string pattern
  searched in anything but a string raises \<^verbatim>\<open>TypeError\<close>.
\<close>

datatype regex =
    Lit char | Digit | AnyChar | Bol | Eol | Empty | Never
  | Seq regex regex | Alt regex regex | Star regex

fun nullable :: "bool \<Rightarrow> string \<Rightarrow> regex \<Rightarrow> bool" where
  "nullable at_start rest (Lit a) = False"
| "nullable at_start rest Digit = False"
| "nullable at_start rest AnyChar = False"
| "nullable at_start rest Bol = at_start"
| "nullable at_start rest Eol = (rest = [] \<or> rest = [CHR 0x0A])"
| "nullable at_start rest Empty = True"
| "nullable at_start rest Never = False"
| "nullable at_start rest (Seq a b) = (nullable at_start rest a \<and> nullable at_start rest b)"
| "nullable at_start rest (Alt a b) = (nullable at_start rest a \<or> nullable at_start rest b)"
| "nullable at_start rest (Star a) = True"

fun deriv :: "bool \<Rightarrow> string \<Rightarrow> char \<Rightarrow> regex \<Rightarrow> regex" where
  "deriv at_start rest c (Lit a) = (if a = c then Empty else Never)"
| "deriv at_start rest c Digit = (if ascii_digit c then Empty else Never)"
| "deriv at_start rest c AnyChar = (if c \<noteq> CHR 0x0A then Empty else Never)"
| "deriv at_start rest c Bol = Never"
| "deriv at_start rest c Eol = Never"
| "deriv at_start rest c Empty = Never"
| "deriv at_start rest c Never = Never"
| "deriv at_start rest c (Seq a b) =
     (if nullable at_start rest a
      then Alt (Seq (deriv at_start rest c a) b) (deriv at_start rest c b)
      else Seq (deriv at_start rest c a) b)"
| "deriv at_start rest c (Alt a b) = Alt (deriv at_start rest c a) (deriv at_start rest c b)"
| "deriv at_start rest c (Star a) = Seq (deriv at_start rest c a) (Star a)"

fun match_here :: "regex \<Rightarrow> bool \<Rightarrow> string \<Rightarrow> bool" where
  "match_here r at_start [] = nullable at_start [] r"
| "match_here r at_start (c # cs) =
     (nullable at_start (c # cs) r \<or> match_here (deriv at_start (c # cs) c r) False cs)"

fun match_anywhere :: "regex \<Rightarrow> bool \<Rightarrow> string \<Rightarrow> bool" where
  "match_anywhere r at_start [] = match_here r at_start []"
| "match_anywhere r at_start (c # cs) =
     (match_here r at_start (c # cs) \<or> match_anywhere r False cs)"

datatype token = TLit char | TDigit | TAny | TBol | TEol | TBar | TQuant char | TBad

definition plain_token :: "char \<Rightarrow> token" where
  "plain_token c =
     (if c = CHR ''|'' then TBar
      else if c = CHR ''.'' then TAny
      else if c = CHR ''^'' then TBol
      else if c = CHR ''$'' then TEol
      else if c = CHR ''+'' \<or> c = CHR ''*'' \<or> c = CHR ''?'' then TQuant c
      else if c = CHR ''('' \<or> c = CHR '')'' \<or> c = CHR ''['' \<or> c = CHR '']''
              \<or> c = CHR ''{'' \<or> c = CHR ''}'' \<or> c = CHR 0x5C then TBad
      else TLit c)"

definition escape_token :: "char \<Rightarrow> token" where
  "escape_token e =
     (if e = CHR ''d'' then TDigit else if ascii_alpha e \<or> ascii_digit e then TBad else TLit e)"

fun tokens :: "string \<Rightarrow> token list" where
  "tokens [] = []"
| "tokens [c] = [plain_token c]"
| "tokens (c # e # s) =
     (if c = CHR 0x5C then escape_token e # tokens s else plain_token c # tokens (e # s))"

definition quantified :: "char \<Rightarrow> regex \<Rightarrow> regex" where
  "quantified q a = (if q = CHR ''+'' then Seq a (Star a) else if q = CHR ''*'' then Star a
                     else Alt a Empty)"

fun seq_of :: "regex list \<Rightarrow> regex" where
  "seq_of [] = Empty"
| "seq_of (a # as) = Seq a (seq_of as)"

fun alt_of :: "regex list \<Rightarrow> regex" where
  "alt_of [] = Never"
| "alt_of (a # as) = Alt a (alt_of as)"

text \<open>
  \<open>cur\<close> holds the pieces of the branch being read, last first, \<open>alts\<close> the finished
  branches, last first; \<open>rep\<close> tells whether the last piece may take a quantifier.
\<close>

fun parse_tokens :: "token list \<Rightarrow> regex list \<Rightarrow> regex list \<Rightarrow> bool \<Rightarrow> regex option" where
  "parse_tokens [] cur alts rep = Some (alt_of (rev (seq_of (rev cur) # alts)))"
| "parse_tokens (TLit c # ts) cur alts rep = parse_tokens ts (Lit c # cur) alts True"
| "parse_tokens (TDigit # ts) cur alts rep = parse_tokens ts (Digit # cur) alts True"
| "parse_tokens (TAny # ts) cur alts rep = parse_tokens ts (AnyChar # cur) alts True"
| "parse_tokens (TBol # ts) cur alts rep = parse_tokens ts (Bol # cur) alts False"
| "parse_tokens (TEol # ts) cur alts rep = parse_tokens ts (Eol # cur) alts False"
| "parse_tokens (TBar # ts) cur alts rep = parse_tokens ts [] (seq_of (rev cur) # alts) False"
| "parse_tokens (TQuant q # ts) [] alts rep = None"
| "parse_tokens (TQuant q # ts) (a # cur) alts rep =
     (if rep then parse_tokens ts (quantified q a # cur) alts False else None)"
| "parse_tokens (TBad # ts) cur alts rep = None"

definition fragment_re_search :: "string \<Rightarrow> pyval \<Rightarrow> error + bool" where
  "fragment_re_search p v =
     (case parse_tokens (tokens p) [] [] False of
        None \<Rightarrow> Inl RegexError
      | Some r \<Rightarrow> (case v of PStr s \<Rightarrow> Inr (match_anywhere r True s) | _ \<Rightarrow> Inl TypeError))"

subsection \<open>A JSON decoder for a fragment of JSON\<close>

text \<open>
  The fragment: objects, arrays, strings without escapes, integers, \<open>true\<close>, \<open>false\<close>
  and \<open>null\<close>, with white space between them. A repeated key keeps its first place and
  its last value. A number with a fraction or an exponent and a string with an escape are
  outside the fragment: this decoder gives \<open>None\<close> for them, as for text that is not JSON.
  The first argument of the three functions bounds the depth of the recursion; the length
  of the text is enough.
\<close>

definition json_ws :: "char \<Rightarrow> bool" where
  "json_ws c = (c = CHR '' '' \<or> c = CHR 0x09 \<or> c = CHR 0x0A \<or> c = CHR 0x0D)"

definition skip_ws :: "string \<Rightarrow> string" where
  "skip_ws s = dropWhile json_ws s"

fun json_string_body :: "string \<Rightarrow> (string \<times> string) option" where
  "json_string_body [] = None"
| "json_string_body (c # s) =
     (if c = CHR 0x22 then Some ([], s)
      else if c = CHR 0x5C \<or> (of_char c :: nat) < 32 then None
      else (case json_string_body s of None \<Rightarrow> None | Some (t, r) \<Rightarrow> Some (c # t, r)))"

definition digits_value :: "string \<Rightarrow> nat" where
  "digits_value ds = foldl (\<lambda>n c. 10 * n + (of_char c - 48)) 0 ds"

definition json_number :: "string \<Rightarrow> (pyval \<times> string) option" where
  "json_number s =
     (let negative = (case s of [] \<Rightarrow> False | c # r \<Rightarrow> c = CHR ''-'');
          s1 = (if negative then tl s else s);
          ds = takeWhile ascii_digit s1;
          rest = dropWhile ascii_digit s1
      in if ds = [] \<or> (length ds > 1 \<and> starts_with ''0'' ds) then None
         else if (case rest of [] \<Rightarrow> False | c # r \<Rightarrow> c = CHR ''.'' \<or> c = CHR ''e'' \<or> c = CHR ''E'')
         then None
         else Some (PInt (if negative then - int (digits_value ds) else int (digits_value ds)), rest))"

fun member_store :: "(string \<times> pyval) list \<Rightarrow> string \<Rightarrow> pyval \<Rightarrow> (string \<times> pyval) list" where
  "member_store [] k v = [(k, v)]"
| "member_store ((k', v') # d) k v =
     (if k' = k then (k', v) # d else (k', v') # member_store d k v)"

fun json_value :: "nat \<Rightarrow> string \<Rightarrow> (pyval \<times> string) option"
  and json_elements :: "nat \<Rightarrow> string \<Rightarrow> pyval list \<Rightarrow> (pyval \<times> string) option"
  and json_members :: "nat \<Rightarrow> string \<Rightarrow> (string \<times> pyval) list \<Rightarrow> (pyval \<times> string) option"
where
  "json_value 0 s = None"
| "json_value (Suc n) s =
     (case skip_ws s of
        [] \<Rightarrow> None
      | c # r \<Rightarrow>
          if c = CHR ''{'' then
            (case skip_ws r of
               [] \<Rightarrow> None
             | c' # r' \<Rightarrow> if c' = CHR ''}'' then Some (PDict [], r') else json_members n r [])
          else if c = CHR ''['' then
            (case skip_ws r of
               [] \<Rightarrow> None
             | c' # r' \<Rightarrow> if c' = CHR '']'' then Some (PList [], r') else json_elements n r [])
          else if c = CHR 0x22 then
            (case json_string_body r of None \<Rightarrow> None | Some (t, r') \<Rightarrow> Some (PStr t, r'))
          else if starts_with ''true'' (c # r) then Some (PBool True, drop 4 (c # r))
          else if starts_with ''false'' (c # r) then Some (PBool False, drop 5 (c # r))
          else if starts_with ''null'' (c # r) then Some (PNone, drop 4 (c # r))
          else json_number (c # r))"
| "json_elements 0 s acc = None"
| "json_elements (Suc n) s acc =
     (case json_value n s of
        None \<Rightarrow> None
      | Some (v, r) \<Rightarrow>
          (case skip_ws r of
             [] \<Rightarrow> None
           | c # r' \<Rightarrow>
               if c = CHR '','' then json_elements n r' (acc @ [v])
               else if c = CHR '']'' then Some (PList (acc @ [v]), r')
               else None))"
| "json_members 0 s acc = None"
| "json_members (Suc n) s acc =
     (case skip_ws s of
        [] \<Rightarrow> None
      | q # r \<Rightarrow>
          if q \<noteq> CHR 0x22 then None
          else
            (case json_string_body r of
               None \<Rightarrow> None
             | Some (k, r1) \<Rightarrow>
                 (case skip_ws r1 of
                    [] \<Rightarrow> None
                  | colon # r2 \<Rightarrow>
                      if colon \<noteq> CHR '':'' then None
                      else
                        (case json_value n r2 of
                           None \<Rightarrow> None
                         | Some (v, r3) \<Rightarrow>
                             (case skip_ws r3 of
                                [] \<Rightarrow> None
                              | c # r4 \<Rightarrow>
                                  if c = CHR '','' then json_members n r4 (member_store acc k v)
                                  else if c = CHR ''}'' then Some (PDict (member_store acc k v), r4)
                                  else None)))))"

definition basic_json_decode :: "string \<Rightarrow> pyval option" where
  "basic_json_decode s =
     (case json_value (Suc (length s)) s of
        None \<Rightarrow> None
      | Some (v, r) \<Rightarrow> if skip_ws r = [] then Some v else None)"

subsection \<open>str of the simple values\<close>

function dec_digits :: "nat \<Rightarrow> string" where
  "dec_digits n =
     (if n < 10 then [char_of (48 + n)] else dec_digits (n div 10) @ [char_of (48 + n mod 10)])"
  by pat_completeness auto
termination
  by (relation "measure (\<lambda>n. n)") auto

definition str_of_int :: "int \<Rightarrow> string" where
  "str_of_int i = (if i < 0 then CHR ''-'' # dec_digits (nat (- i)) else dec_digits (nat i))"

text \<open>
  \<^verbatim>\<open>str\<close> of \<^verbatim>\<open>None\<close>, a boolean, an integer and a string. The text of a float, a bytes
  object, a list or a dictionary is not modelled: this instance gives the empty text.
\<close>

fun basic_str :: "pyval \<Rightarrow> string" where
  "basic_str PNone = ''None''"
| "basic_str (PBool b) = (if b then ''True'' else ''False'')"
| "basic_str (PInt i) = str_of_int i"
| "basic_str (PStr s) = s"
| "basic_str v = []"

subsection \<open>The instance and the documents of the examples\<close>

text \<open>
  \<^verbatim>\<open>json.dump\<close> is not modelled: the instance raises, and no example exports JSON.
\<close>

definition example_lib :: pylib where
  "example_lib =
     \<lparr> urlparse = cpython_urlparse,
       re_search = fragment_re_search,
       json_decode = basic_json_decode,
       json_dump = (\<lambda>endpoints. Inl TypeError),
       py_str = basic_str \<rparr>"

text \<open>
  The document of the repository's test suite (\<^verbatim>\<open>tests/test_parser.py\<close>, \<^verbatim>\<open>setUp\<close>): a
  \<^verbatim>\<open>GET\<close> of \<^verbatim>\<open>https://api.example.com/v1/users\<close> and a \<^verbatim>\<open>POST\<close> to
  \<^verbatim>\<open>https://example.com/login\<close> with a JSON body, and the two records the parser makes of
  them.
\<close>

definition test_body :: string where
  "test_body = ''{'' @ [CHR 0x22] @ ''username'' @ [CHR 0x22] @ '':'' @ [CHR 0x22] @ ''test''
     @ [CHR 0x22] @ '','' @ [CHR 0x22] @ ''password'' @ [CHR 0x22] @ '':'' @ [CHR 0x22]
     @ ''test123'' @ [CHR 0x22] @ ''}''"

definition test_har :: pyval where
  "test_har =
     PDict [(''log'', PDict
       [(''version'', PStr ''1.2''),
        (''creator'', PDict [(''name'', PStr ''Test''), (''version'', PStr ''1.0'')]),
        (''entries'', PList
          [PDict
             [(''request'', PDict
                [(''method'', PStr ''GET''),
                 (''url'', PStr ''https://api.example.com/v1/users''),
                 (''headers'', PList [PDict [(''name'', PStr ''Accept''),
                                             (''value'', PStr ''application/json'')]]),
                 (''queryString'', PList [PDict [(''name'', PStr ''page''),
                                                 (''value'', PStr ''1'')]])]),
              (''response'', PDict [(''status'', PInt 200), (''bodySize'', PInt 1024)]),
              (''time'', PInt 150)],
           PDict
             [(''request'', PDict
                [(''method'', PStr ''POST''),
                 (''url'', PStr ''https://example.com/login''),
                 (''headers'', PList [PDict [(''name'', PStr ''Content-Type''),
                                             (''value'', PStr ''application/json'')]]),
                 (''postData'', PDict [(''mimeType'', PStr ''application/json''),
                                       (''text'', PStr test_body)])]),
              (''response'', PDict [(''status'', PInt 200), (''bodySize'', PInt 512)]),
              (''time'', PInt 200)]])])]"

definition get_record :: endpoint where
  "get_record =
     \<lparr> url = PStr ''https://api.example.com/v1/users'', method = PStr ''GET'',
       protocol = PStr ''https'', domain = PStr ''api.example.com'',
       path = PStr ''/v1/users'', query_params = [(PStr ''page'', PStr ''1'')],
       headers = [(PStr ''Accept'', PStr ''application/json'')],
       post_data = PNone,
       status_code = PInt 200, response_size = PInt 1024, time = PInt 150 \<rparr>"

definition post_record :: endpoint where
  "post_record =
     \<lparr> url = PStr ''https://example.com/login'', method = PStr ''POST'',
       protocol = PStr ''https'', domain = PStr ''example.com'',
       path = PStr ''/login'', query_params = [],
       headers = [(PStr ''Content-Type'', PStr ''application/json'')],
       post_data = PDict [(''username'', PStr ''test''), (''password'', PStr ''test123'')],
       status_code = PInt 200, response_size = PInt 512, time = PInt 200 \<rparr>"

text \<open>The record of an entry that is an empty object: every default.\<close>

definition empty_record :: endpoint where
  "empty_record =
     \<lparr> url = PStr [], method = PStr [], protocol = PStr [], domain = PStr [], path = PStr [],
       query_params = [], headers = [], post_data = PNone,
       status_code = PInt 0, response_size = PInt 0, time = PInt 0 \<rparr>"

text \<open>A document whose \<^verbatim>\<open>log\<close> is \<^verbatim>\<open>null\<close>.\<close>

definition null_log_har :: pyval where
  "null_log_har = PDict [(''log'', PNone)]"

text \<open>An entry whose URL opens a bracket and never closes it, alone and after a good entry.\<close>

definition bad_url_entry :: pyval where
  "bad_url_entry =
     PDict [(''request'', PDict [(''method'', PStr ''GET''), (''url'', PStr ''http://[::1'')])]"

definition bad_url_har :: pyval where
  "bad_url_har = PDict [(''log'', PDict [(''entries'', PList [bad_url_entry])])]"

definition mixed_har :: pyval where
  "mixed_har = PDict [(''log'', PDict [(''entries'', PList [PDict [], bad_url_entry])])]"

text \<open>The header row of the CSV export and the export of the two test records.\<close>

definition csv_header :: string where
  "csv_header = ''url,method,protocol,domain,path,status_code,response_size,time''
                @ [CHR 0x0D, CHR 0x0A]"

definition csv_example :: string where
  "csv_example =
     csv_header
     @ ''https://api.example.com/v1/users,GET,https,api.example.com,/v1/users,200,1024,150''
     @ [CHR 0x0D, CHR 0x0A]
     @ ''https://example.com/login,POST,https,example.com,/login,200,512,200''
     @ [CHR 0x0D, CHR 0x0A]"

section \<open>Lemmas\<close>

subsection \<open>Sequencing\<close>

lemma bind_err_simps [simp]:
  "bind_err (Inl e) f = Inl e"
  "bind_err (Inr x) f = f x"
  by (simp_all add: bind_err_def)

lemma bind_err_Inr_iff: "bind_err m f = Inr y \<longleftrightarrow> (\<exists>x. m = Inr x \<and> f x = Inr y)"
  by (cases m) simp_all

lemma if_Inr_None_iff:
  "(if c then Inr None else t) = Inr x \<longleftrightarrow> (c \<and> x = None) \<or> (\<not> c \<and> t = Inr x)"
  by auto

lemma py_get_dict_total:
  "py_get v k d = Inr x \<Longrightarrow> \<exists>y. py_get v k' d' = Inr y"
  by (cases v) simp_all

lemma py_eq_int_nonzero: "py_eq_int v n \<Longrightarrow> n \<noteq> 0 \<Longrightarrow> \<not> py_eq_int v 0"
proof (cases v)
  case (PFloat x)
  then show "py_eq_int v n \<Longrightarrow> n \<noteq> 0 \<Longrightarrow> \<not> py_eq_int v 0" by (cases x) auto
qed (auto split: if_splits)

subsection \<open>Filters that are not active\<close>

lemma unset_filters [simp]:
  "str_filter_rejects None v = False"
  "status_filter_rejects None v = False"
  "pattern_filter_rejects L None v = Inr False"
  by (simp_all add: str_filter_rejects_def status_filter_rejects_def pattern_filter_rejects_def)

lemma status_zero_unset: "status_filter_rejects (Some 0) = status_filter_rejects None"
  by (rule ext) (simp add: status_filter_rejects_def)

lemma string_empty_unset: "str_filter_rejects (Some []) = str_filter_rejects None"
  by (rule ext) (simp add: str_filter_rejects_def)

lemma pattern_empty_unset: "pattern_filter_rejects L (Some []) = pattern_filter_rejects L None"
  by (rule ext) (simp add: pattern_filter_rejects_def)

lemma str_filter_rejects_Some: "d \<noteq> [] \<Longrightarrow> str_filter_rejects (Some d) v \<longleftrightarrow> v \<noteq> PStr d"
  by (simp add: str_filter_rejects_def)

lemma status_filter_rejects_Some:
  "n \<noteq> 0 \<Longrightarrow> status_filter_rejects (Some n) v \<longleftrightarrow> \<not> py_eq_int v n"
  by (simp add: status_filter_rejects_def)

lemma get_endpoints_zero_status:
  "get_endpoints L har_data d m (Some 0) p = get_endpoints L har_data d m None p"
  unfolding get_endpoints_def process_entry_def status_zero_unset ..

lemma get_endpoints_empty_domain:
  "get_endpoints L har_data (Some []) m s p = get_endpoints L har_data None m s p"
  unfolding get_endpoints_def process_entry_def string_empty_unset ..

lemma get_endpoints_empty_pattern:
  "get_endpoints L har_data d m s (Some []) = get_endpoints L har_data d m s None"
  unfolding get_endpoints_def process_entry_def pattern_empty_unset ..

subsection \<open>The loop\<close>

lemma get_endpoints_doc_entries:
  "get_endpoints L har_data d m s p =
     bind_err (doc_entries har_data) (\<lambda>items. endpoints_loop (process_entry L d m s p) items [])"
  unfolding get_endpoints_def doc_entries_def
  by (auto simp: bind_err_def split: sum.splits)

text \<open>
  What the loop returns is what it started with, followed by one record for every entry
  the body does not skip, in the order of the entries.
\<close>

lemma endpoints_loop_corr:
  assumes "endpoints_loop body es acc = Inr rs"
  shows "\<exists>new. rs = acc @ new \<and>
           list_all2 (\<lambda>e r. body e = Inr (Some r)) (filter (\<lambda>e. body e \<noteq> Inr None) es) new"
  using assms
proof (induction es arbitrary: acc)
  case Nil
  then show ?case by simp
next
  case (Cons e es)
  show ?case
  proof (cases "body e")
    case (Inl x)
    with Cons.prems show ?thesis by simp
  next
    case (Inr x)
    show ?thesis
    proof (cases x)
      case None
      with Inr Cons.prems have "endpoints_loop body es acc = Inr rs" by simp
      from Cons.IH [OF this] Inr None show ?thesis by simp
    next
      case (Some r)
      with Inr Cons.prems have "endpoints_loop body es (acc @ [r]) = Inr rs" by simp
      from Cons.IH [OF this] obtain new where
        "rs = (acc @ [r]) @ new"
        "list_all2 (\<lambda>e r. body e = Inr (Some r)) (filter (\<lambda>e. body e \<noteq> Inr None) es) new"
        by blast
      with Inr Some show ?thesis by (intro exI [of _ "r # new"]) simp
    qed
  qed
qed

lemma endpoints_loop_all_ok:
  "endpoints_loop body es acc = Inr rs \<Longrightarrow> e \<in> set es \<Longrightarrow> \<exists>x. body e = Inr x"
  by (induction es arbitrary: acc) (auto split: sum.splits option.splits)

lemma endpoints_loop_total:
  assumes "\<forall>e\<in>set es. \<exists>x. body e = Inr x"
  shows "\<exists>rs. endpoints_loop body es acc = Inr rs"
  using assms
proof (induction es arbitrary: acc)
  case Nil
  then show ?case by simp
next
  case (Cons e es)
  from Cons.prems obtain x where x: "body e = Inr x" by auto
  from Cons.prems have rest: "\<forall>e\<in>set es. \<exists>x. body e = Inr x" by simp
  from Cons.IH [OF rest] x show ?case by (cases x) simp_all
qed

lemma endpoints_loop_first_failure:
  assumes "\<forall>x\<in>set before. \<exists>y. body x = Inr y" and "body entry = Inl e"
  shows "endpoints_loop body (before @ entry # after) acc = Inl e"
  using assms
proof (induction before arbitrary: acc)
  case Nil
  then show ?case by simp
next
  case (Cons x xs)
  from Cons.prems(1) obtain y where y: "body x = Inr y" by auto
  from Cons.prems(1) have rest: "\<forall>x\<in>set xs. \<exists>y. body x = Inr y" by simp
  from Cons.IH [OF rest Cons.prems(2)] y show ?case by (cases y) simp_all
qed

lemma endpoints_loop_all_records:
  assumes "endpoints_loop body es acc = Inr rs"
    and "\<forall>e r. body e = Inr (Some r) \<longrightarrow> Q r"
    and "\<forall>r\<in>set acc. Q r"
  shows "\<forall>r\<in>set rs. Q r"
proof -
  from endpoints_loop_corr [OF assms(1)] obtain new where
    rs: "rs = acc @ new" and
    la: "list_all2 (\<lambda>e r. body e = Inr (Some r)) (filter (\<lambda>e. body e \<noteq> Inr None) es) new"
    by blast
  from la assms(2) have "list_all2 (\<lambda>e r. Q r) (filter (\<lambda>e. body e \<noteq> Inr None) es) new"
    by (auto elim: list_all2_mono)
  then have "\<forall>r\<in>set new. Q r"
    by (auto simp: list_all2_conv_all_nth in_set_conv_nth)
  with rs assms(3) show ?thesis by auto
qed

text \<open>Adding a test on the records to the body filters the result.\<close>

lemma endpoints_loop_refilter:
  assumes "endpoints_loop body0 es acc = Inr rs"
    and "\<And>e x. e \<in> set es \<Longrightarrow> body0 e = Inr x \<Longrightarrow>
           body1 e = Inr (case x of None \<Rightarrow> None | Some r \<Rightarrow> if P r then Some r else None)"
  shows "endpoints_loop body1 es (filter P acc) = Inr (filter P rs)"
  using assms
proof (induction es arbitrary: acc)
  case Nil
  then show ?case by simp
next
  case (Cons e es)
  from Cons.prems(1) obtain x where x: "body0 e = Inr x"
    by (cases "body0 e") auto
  from Cons.prems(2) [OF _ x]
  have b1: "body1 e = Inr (case x of None \<Rightarrow> None | Some r \<Rightarrow> if P r then Some r else None)"
    by simp
  have rest: "\<And>e' x'. e' \<in> set es \<Longrightarrow> body0 e' = Inr x' \<Longrightarrow>
      body1 e' = Inr (case x' of None \<Rightarrow> None | Some r \<Rightarrow> if P r then Some r else None)"
    using Cons.prems(2) by simp
  show ?case
  proof (cases x)
    case None
    with x Cons.prems(1) have "endpoints_loop body0 es acc = Inr rs" by simp
    from Cons.IH [OF this rest] b1 None show ?thesis by simp
  next
    case (Some r)
    with x Cons.prems(1) have "endpoints_loop body0 es (acc @ [r]) = Inr rs" by simp
    from Cons.IH [OF this rest] b1 Some show ?thesis by (cases "P r") simp_all
  qed
qed

text \<open>Two bodies that agree wherever both return give the same list when both loops return.\<close>

lemma endpoints_loop_agree:
  assumes "\<forall>e\<in>set es. \<forall>x y. body1 e = Inr x \<longrightarrow> body2 e = Inr y \<longrightarrow> x = y"
    and "endpoints_loop body1 es acc = Inr rs1"
    and "endpoints_loop body2 es acc = Inr rs2"
  shows "rs1 = rs2"
  using assms
proof (induction es arbitrary: acc)
  case Nil
  then show ?case by simp
next
  case (Cons e es)
  from Cons.prems(2) obtain x where x: "body1 e = Inr x" by (cases "body1 e") auto
  from Cons.prems(3) obtain y where y: "body2 e = Inr y" by (cases "body2 e") auto
  from Cons.prems(1) x y have xy: "x = y" by simp
  from Cons.prems(1)
  have rest: "\<forall>e\<in>set es. \<forall>x y. body1 e = Inr x \<longrightarrow> body2 e = Inr y \<longrightarrow> x = y"
    by simp
  show ?case
  proof (cases x)
    case None
    with x y xy Cons.prems(2,3) have
      "endpoints_loop body1 es acc = Inr rs1" "endpoints_loop body2 es acc = Inr rs2" by simp_all
    with rest show ?thesis by (rule Cons.IH)
  next
    case (Some r)
    with x y xy Cons.prems(2,3) have
      "endpoints_loop body1 es (acc @ [r]) = Inr rs1"
      "endpoints_loop body2 es (acc @ [r]) = Inr rs2" by auto
    with rest show ?thesis by (rule Cons.IH)
  qed
qed

lemma list_all2_functional:
  assumes "list_all2 R xs ys" and "list_all2 R xs zs"
    and "\<And>x y z. R x y \<Longrightarrow> R x z \<Longrightarrow> y = z"
  shows "ys = zs"
  using assms
proof (induction xs arbitrary: ys zs)
  case Nil
  then show ?case by simp
next
  case (Cons x xs)
  from Cons.prems(1) obtain y ys' where ys: "ys = y # ys'" "R x y" "list_all2 R xs ys'"
    by (auto simp: list_all2_Cons1)
  from Cons.prems(2) obtain z zs' where zs: "zs = z # zs'" "R x z" "list_all2 R xs zs'"
    by (auto simp: list_all2_Cons1)
  from Cons.prems(3) [OF ys(2) zs(2)] Cons.IH [OF ys(3) zs(3) Cons.prems(3)] ys(1) zs(1)
  show ?case by simp
qed

subsection \<open>The loop body\<close>

lemma build_endpoint_fields:
  assumes "build_endpoint L entry request response url_v parsed request_method response_status = Inr r"
  shows "url r = url_v" "method r = request_method" "protocol r = url_scheme parsed"
    "domain r = url_netloc parsed" "path r = url_path parsed" "status_code r = response_status"
  using assms unfolding build_endpoint_def
  by (auto simp: bind_err_def split: sum.splits)

text \<open>The body returns exactly along one of its five ways out.\<close>

lemma process_entry_Inr_iff:
  "process_entry L d m s p entry = Inr x \<longleftrightarrow>
     (\<exists>request. py_get entry ''request'' (PDict []) = Inr request \<and>
     (\<exists>response. py_get entry ''response'' (PDict []) = Inr response \<and>
     (\<exists>url_v. py_get request ''url'' (PStr []) = Inr url_v \<and>
     (\<exists>parsed. urlparse L url_v = Inr parsed \<and>
       (str_filter_rejects d (url_netloc parsed) \<and> x = None \<or>
        \<not> str_filter_rejects d (url_netloc parsed) \<and>
        (\<exists>request_method. py_get request ''method'' (PStr []) = Inr request_method \<and>
          (str_filter_rejects m request_method \<and> x = None \<or>
           \<not> str_filter_rejects m request_method \<and>
           (\<exists>response_status. py_get response ''status'' (PInt 0) = Inr response_status \<and>
             (status_filter_rejects s response_status \<and> x = None \<or>
              \<not> status_filter_rejects s response_status \<and>
              (\<exists>rejected. pattern_filter_rejects L p (url_path parsed) = Inr rejected \<and>
                (rejected \<and> x = None \<or>
                 \<not> rejected \<and>
                 (\<exists>r. build_endpoint L entry request response url_v parsed
                        request_method response_status = Inr r \<and> Some r = x))))))))))))"
  unfolding process_entry_def
  by (simp only: bind_err_Inr_iff if_Inr_None_iff sum.inject)

lemma process_entry_kept:
  assumes "process_entry L d m s p entry = Inr (Some r)"
  obtains request response url_v parsed request_method response_status where
    "py_get entry ''request'' (PDict []) = Inr request"
    "py_get entry ''response'' (PDict []) = Inr response"
    "py_get request ''url'' (PStr []) = Inr url_v"
    "urlparse L url_v = Inr parsed"
    "py_get request ''method'' (PStr []) = Inr request_method"
    "py_get response ''status'' (PInt 0) = Inr response_status"
    "\<not> str_filter_rejects d (url_netloc parsed)"
    "\<not> str_filter_rejects m request_method"
    "\<not> status_filter_rejects s response_status"
    "pattern_filter_rejects L p (url_path parsed) = Inr False"
    "build_endpoint L entry request response url_v parsed request_method response_status = Inr r"
  using assms unfolding process_entry_Inr_iff by auto

lemma filter_passes_eval:
  assumes "py_get entry ''request'' (PDict []) = Inr request"
  shows "py_get request ''url'' (PStr []) = Inr url_v \<Longrightarrow> urlparse L url_v = Inr parsed \<Longrightarrow>
           domain_filter_passes L d entry \<longleftrightarrow> \<not> str_filter_rejects d (url_netloc parsed)"
    and "py_get request ''method'' (PStr []) = Inr request_method \<Longrightarrow>
           method_filter_passes m entry \<longleftrightarrow> \<not> str_filter_rejects m request_method"
    and "py_get request ''url'' (PStr []) = Inr url_v \<Longrightarrow> urlparse L url_v = Inr parsed \<Longrightarrow>
           pattern_filter_rejects L p (url_path parsed) = Inr rejected \<Longrightarrow>
           pattern_filter_passes L p entry \<longleftrightarrow> \<not> rejected"
  using assms
  by (auto simp: domain_filter_passes_def method_filter_passes_def pattern_filter_passes_def
      entry_url_parts_def entry_method_def str_filter_rejects_def pattern_filter_rejects_def
      bind_err_def split: option.splits sum.splits if_splits)

lemma status_passes_eval:
  assumes "py_get entry ''response'' (PDict []) = Inr response"
    and "py_get response ''status'' (PInt 0) = Inr response_status"
  shows "status_filter_passes s entry \<longleftrightarrow> \<not> status_filter_rejects s response_status"
  using assms
  by (auto simp: status_filter_passes_def entry_status_def status_filter_rejects_def
      split: option.splits)

lemma process_entry_Some:
  assumes "process_entry L d m s p entry = Inr (Some r)"
  shows "passes_all_filters L d m s p entry" and "entry_record L entry = Inr (Some r)"
proof -
  from assms obtain request response url_v parsed request_method response_status where
    f: "py_get entry ''request'' (PDict []) = Inr request"
      "py_get entry ''response'' (PDict []) = Inr response"
      "py_get request ''url'' (PStr []) = Inr url_v"
      "urlparse L url_v = Inr parsed"
      "py_get request ''method'' (PStr []) = Inr request_method"
      "py_get response ''status'' (PInt 0) = Inr response_status"
    and g: "\<not> str_filter_rejects d (url_netloc parsed)"
      "\<not> str_filter_rejects m request_method"
      "\<not> status_filter_rejects s response_status"
      "pattern_filter_rejects L p (url_path parsed) = Inr False"
    and b: "build_endpoint L entry request response url_v parsed request_method response_status
              = Inr r"
    by (rule process_entry_kept)
  show "passes_all_filters L d m s p entry"
    unfolding passes_all_filters_def
    using f g filter_passes_eval [OF f(1)] status_passes_eval [OF f(2) f(6)] by blast
  show "entry_record L entry = Inr (Some r)"
    unfolding entry_record_def process_entry_Inr_iff using f b by auto
qed

lemma process_entry_None:
  assumes "process_entry L d m s p entry = Inr None"
  shows "\<not> passes_all_filters L d m s p entry"
proof -
  from assms obtain request response url_v parsed where
    f: "py_get entry ''request'' (PDict []) = Inr request"
      "py_get entry ''response'' (PDict []) = Inr response"
      "py_get request ''url'' (PStr []) = Inr url_v"
      "urlparse L url_v = Inr parsed"
    and g: "str_filter_rejects d (url_netloc parsed) \<or>
        (\<exists>request_method. py_get request ''method'' (PStr []) = Inr request_method \<and>
          (str_filter_rejects m request_method \<or>
           (\<exists>response_status. py_get response ''status'' (PInt 0) = Inr response_status \<and>
             (status_filter_rejects s response_status \<or>
               pattern_filter_rejects L p (url_path parsed) = Inr True))))"
    unfolding process_entry_Inr_iff by auto
  show ?thesis
    unfolding passes_all_filters_def
    using g filter_passes_eval [OF f(1)] f status_passes_eval [OF f(2)] by blast
qed

lemma process_entry_record_passes:
  assumes "process_entry L d m s p entry = Inr (Some r)"
  shows "record_passes L d m s p r"
proof -
  from assms obtain request response url_v parsed request_method response_status where
    "py_get entry ''request'' (PDict []) = Inr request"
    "py_get entry ''response'' (PDict []) = Inr response"
    "py_get request ''url'' (PStr []) = Inr url_v"
    "urlparse L url_v = Inr parsed"
    "py_get request ''method'' (PStr []) = Inr request_method"
    "py_get response ''status'' (PInt 0) = Inr response_status"
    and g: "\<not> str_filter_rejects d (url_netloc parsed)"
      "\<not> str_filter_rejects m request_method"
      "\<not> status_filter_rejects s response_status"
      "pattern_filter_rejects L p (url_path parsed) = Inr False"
    and b: "build_endpoint L entry request response url_v parsed request_method response_status
              = Inr r"
    by (rule process_entry_kept)
  from g build_endpoint_fields [OF b] show ?thesis
    by (simp add: record_passes_def)
qed

text \<open>A failure to read or parse the URL of an entry is the failure of the body.\<close>

lemma entry_url_parts_failure:
  assumes "entry_url_parts L entry = Inl e"
  shows "process_entry L d m s p entry = Inl e"
proof (cases "py_get entry ''request'' (PDict [])")
  case (Inl a)
  with assms show ?thesis by (simp add: entry_url_parts_def process_entry_def)
next
  case (Inr request)
  from py_get_dict_total [OF Inr] obtain response where
    r: "py_get entry ''response'' (PDict []) = Inr response" by blast
  show ?thesis
  proof (cases "py_get request ''url'' (PStr [])")
    case (Inl a)
    with assms Inr r show ?thesis by (simp add: entry_url_parts_def process_entry_def)
  next
    case u: (Inr url_v)
    with assms Inr have "urlparse L url_v = Inl e" by (simp add: entry_url_parts_def)
    with Inr r u show ?thesis by (simp add: process_entry_def)
  qed
qed

lemma process_entry_url_ok:
  assumes "process_entry L d m s p entry = Inr x"
  shows "\<exists>u. entry_url_parts L entry = Inr u"
  using assms entry_url_parts_failure [of L entry _ d m s p]
  by (cases "entry_url_parts L entry") auto

lemma process_entry_url_components:
  assumes "process_entry L d m s p entry = Inr (Some r)"
  shows "\<exists>u. entry_url_parts L entry = Inr u \<and> protocol r = url_scheme u \<and>
           domain r = url_netloc u \<and> path r = url_path u \<and>
           pattern_filter_rejects L p (url_path u) = Inr False"
proof -
  from assms obtain request response url_v parsed request_method response_status where
    f: "py_get entry ''request'' (PDict []) = Inr request"
    "py_get entry ''response'' (PDict []) = Inr response"
    "py_get request ''url'' (PStr []) = Inr url_v"
    "urlparse L url_v = Inr parsed"
    "py_get request ''method'' (PStr []) = Inr request_method"
    "py_get response ''status'' (PInt 0) = Inr response_status"
    "\<not> str_filter_rejects d (url_netloc parsed)"
    "\<not> str_filter_rejects m request_method"
    "\<not> status_filter_rejects s response_status"
    "pattern_filter_rejects L p (url_path parsed) = Inr False"
    and b: "build_endpoint L entry request response url_v parsed request_method response_status
              = Inr r"
    by (rule process_entry_kept)
  from f have "entry_url_parts L entry = Inr parsed" by (simp add: entry_url_parts_def)
  with f(10) build_endpoint_fields [OF b] show ?thesis by simp
qed

text \<open>Giving a domain or a status filter to the body tests the record it would build.\<close>

lemma process_entry_add_domain:
  assumes "process_entry L None m s p entry = Inr x" and "d \<noteq> []"
  shows "process_entry L (Some d) m s p entry =
           Inr (case x of None \<Rightarrow> None | Some r \<Rightarrow> if domain r = PStr d then Some r else None)"
proof (cases x)
  case None
  with assms(1) have "process_entry L None m s p entry = Inr None" by simp
  then show ?thesis
    unfolding None process_entry_Inr_iff by auto
next
  case (Some r)
  with assms(1) have k: "process_entry L None m s p entry = Inr (Some r)" by simp
  from k obtain request response url_v parsed request_method response_status where
    f: "py_get entry ''request'' (PDict []) = Inr request"
    "py_get entry ''response'' (PDict []) = Inr response"
    "py_get request ''url'' (PStr []) = Inr url_v"
    "urlparse L url_v = Inr parsed"
    "py_get request ''method'' (PStr []) = Inr request_method"
    "py_get response ''status'' (PInt 0) = Inr response_status"
    "\<not> str_filter_rejects None (url_netloc parsed)"
    "\<not> str_filter_rejects m request_method"
    "\<not> status_filter_rejects s response_status"
    "pattern_filter_rejects L p (url_path parsed) = Inr False"
    "build_endpoint L entry request response url_v parsed request_method response_status = Inr r"
    by (rule process_entry_kept)
  have "domain r = url_netloc parsed" using f(11) by (rule build_endpoint_fields)
  then show ?thesis
    unfolding Some process_entry_Inr_iff using f
    by (auto simp: str_filter_rejects_Some [OF assms(2)])
qed

lemma process_entry_add_status:
  assumes "process_entry L d m None p entry = Inr x" and "n \<noteq> 0"
  shows "process_entry L d m (Some n) p entry =
           Inr (case x of None \<Rightarrow> None
                | Some r \<Rightarrow> if py_eq_int (status_code r) n then Some r else None)"
proof (cases x)
  case None
  with assms(1) have "process_entry L d m None p entry = Inr None" by simp
  then show ?thesis
    unfolding None process_entry_Inr_iff by auto
next
  case (Some r)
  with assms(1) have k: "process_entry L d m None p entry = Inr (Some r)" by simp
  from k obtain request response url_v parsed request_method response_status where
    f: "py_get entry ''request'' (PDict []) = Inr request"
    "py_get entry ''response'' (PDict []) = Inr response"
    "py_get request ''url'' (PStr []) = Inr url_v"
    "urlparse L url_v = Inr parsed"
    "py_get request ''method'' (PStr []) = Inr request_method"
    "py_get response ''status'' (PInt 0) = Inr response_status"
    "\<not> str_filter_rejects d (url_netloc parsed)"
    "\<not> str_filter_rejects m request_method"
    "\<not> status_filter_rejects None response_status"
    "pattern_filter_rejects L p (url_path parsed) = Inr False"
    "build_endpoint L entry request response url_v parsed request_method response_status = Inr r"
    by (rule process_entry_kept)
  have "status_code r = response_status" using f(11) by (rule build_endpoint_fields)
  then show ?thesis
    unfolding Some process_entry_Inr_iff using f
    by (auto simp: status_filter_rejects_Some [OF assms(2)])
qed

subsection \<open>The body with its tests in another order\<close>

lemma source_order_tail:
  "bind_err (first_rejection (filter_rejects L d m s p request response parsed)
               [ByDomain, ByMethod, ByStatus, ByPattern])
     (\<lambda>rejected. if rejected then Inr None
        else bind_err (py_get request ''method'' (PStr [])) (\<lambda>request_method.
             bind_err (py_get response ''status'' (PInt 0)) (\<lambda>response_status.
             K request_method response_status)))
   = (if str_filter_rejects d (url_netloc parsed) then Inr None
      else bind_err (py_get request ''method'' (PStr [])) (\<lambda>request_method.
        if str_filter_rejects m request_method then Inr None
        else bind_err (py_get response ''status'' (PInt 0)) (\<lambda>response_status.
          if status_filter_rejects s response_status then Inr None
          else bind_err (pattern_filter_rejects L p (url_path parsed)) (\<lambda>rejected.
            if rejected then Inr None else K request_method response_status))))"
  by (cases "py_get request ''method'' (PStr [])";
      cases "py_get response ''status'' (PInt 0)";
      cases "pattern_filter_rejects L p (url_path parsed)") simp_all

lemma source_order:
  "process_entry_in_order [ByDomain, ByMethod, ByStatus, ByPattern] L d m s p
     = process_entry L d m s p"
  unfolding process_entry_in_order_def process_entry_def source_order_tail ..

lemma first_rejection_Inr:
  "first_rejection test ks = Inr b \<Longrightarrow> b \<longleftrightarrow> (\<exists>k\<in>set ks. test k = Inr True)"
proof (induction ks)
  case Nil
  then show ?case by simp
next
  case (Cons k ks)
  then show ?case
    by (cases "test k") (auto split: if_splits)
qed

lemma process_entry_in_order_Inr_iff:
  "process_entry_in_order order L d m s p entry = Inr x \<longleftrightarrow>
     (\<exists>request. py_get entry ''request'' (PDict []) = Inr request \<and>
     (\<exists>response. py_get entry ''response'' (PDict []) = Inr response \<and>
     (\<exists>url_v. py_get request ''url'' (PStr []) = Inr url_v \<and>
     (\<exists>parsed. urlparse L url_v = Inr parsed \<and>
     (\<exists>rejected.
        first_rejection (filter_rejects L d m s p request response parsed) order = Inr rejected \<and>
        (rejected \<and> x = None \<or>
         \<not> rejected \<and>
         (\<exists>request_method. py_get request ''method'' (PStr []) = Inr request_method \<and>
         (\<exists>response_status. py_get response ''status'' (PInt 0) = Inr response_status \<and>
         (\<exists>r. build_endpoint L entry request response url_v parsed
                request_method response_status = Inr r \<and> Some r = x)))))))))"
  unfolding process_entry_in_order_def
  by (simp only: bind_err_Inr_iff if_Inr_None_iff sum.inject)

lemma process_entry_in_order_agree:
  assumes "set order1 = set order2"
    and "process_entry_in_order order1 L d m s p entry = Inr x"
    and "process_entry_in_order order2 L d m s p entry = Inr y"
  shows "x = y"
proof -
  from assms(2) obtain request response url_v parsed b1 where
    f: "py_get entry ''request'' (PDict []) = Inr request"
      "py_get entry ''response'' (PDict []) = Inr response"
      "py_get request ''url'' (PStr []) = Inr url_v"
      "urlparse L url_v = Inr parsed"
    and r1: "first_rejection (filter_rejects L d m s p request response parsed) order1 = Inr b1"
    and x: "b1 \<and> x = None \<or>
         \<not> b1 \<and>
         (\<exists>request_method. py_get request ''method'' (PStr []) = Inr request_method \<and>
         (\<exists>response_status. py_get response ''status'' (PInt 0) = Inr response_status \<and>
         (\<exists>r. build_endpoint L entry request response url_v parsed
                request_method response_status = Inr r \<and> Some r = x)))"
    unfolding process_entry_in_order_Inr_iff by blast
  from assms(3) obtain request' response' url_v' parsed' b2 where
    f': "py_get entry ''request'' (PDict []) = Inr request'"
      "py_get entry ''response'' (PDict []) = Inr response'"
      "py_get request' ''url'' (PStr []) = Inr url_v'"
      "urlparse L url_v' = Inr parsed'"
    and r2: "first_rejection (filter_rejects L d m s p request' response' parsed') order2 = Inr b2"
    and y: "b2 \<and> y = None \<or>
         \<not> b2 \<and>
         (\<exists>request_method. py_get request' ''method'' (PStr []) = Inr request_method \<and>
         (\<exists>response_status. py_get response' ''status'' (PInt 0) = Inr response_status \<and>
         (\<exists>r. build_endpoint L entry request' response' url_v' parsed'
                request_method response_status = Inr r \<and> Some r = y)))"
    unfolding process_entry_in_order_Inr_iff by blast
  from f f' have e: "request' = request" "response' = response" by simp_all
  with f f' have e2: "url_v' = url_v" by simp
  with f f' have e3: "parsed' = parsed" by simp
  from first_rejection_Inr [OF r1] first_rejection_Inr [OF r2] assms(1) e e3
  have b: "b1 = b2" by simp
  show ?thesis
  proof (cases b1)
    case True
    with x y b show ?thesis by simp
  next
    case False
    with x y b e e2 e3 show ?thesis by auto
  qed
qed

subsection \<open>The whole extraction\<close>

lemma get_endpoints_records:
  assumes "get_endpoints L har_data d m s p = Inr rs"
  shows "\<exists>entries. doc_entries har_data = Inr entries \<and>
           (\<forall>entry\<in>set entries. \<exists>x. process_entry L d m s p entry = Inr x) \<and>
           list_all2 (\<lambda>entry r. process_entry L d m s p entry = Inr (Some r))
             (filter (passes_all_filters L d m s p) entries) rs"
proof -
  let ?body = "process_entry L d m s p"
  from assms obtain entries where
    e: "doc_entries har_data = Inr entries" and
    l: "endpoints_loop ?body entries [] = Inr rs"
    unfolding get_endpoints_doc_entries bind_err_Inr_iff by blast
  have ok: "\<forall>entry\<in>set entries. \<exists>x. ?body entry = Inr x"
    using endpoints_loop_all_ok [OF l] by blast
  from endpoints_loop_corr [OF l] have
    c: "list_all2 (\<lambda>e r. ?body e = Inr (Some r)) (filter (\<lambda>e. ?body e \<noteq> Inr None) entries) rs"
    by simp
  have "(?body e \<noteq> Inr None) = passes_all_filters L d m s p e" if "e \<in> set entries" for e
  proof -
    from endpoints_loop_all_ok [OF l that] obtain x where x: "?body e = Inr x" by blast
    show ?thesis
      using x process_entry_Some(1) [of L d m s p e] process_entry_None [of L d m s p e]
      by (cases x) auto
  qed
  then have "filter (\<lambda>e. ?body e \<noteq> Inr None) entries = filter (passes_all_filters L d m s p) entries"
    by (intro filter_cong) auto
  with c have "list_all2 (\<lambda>e r. ?body e = Inr (Some r))
      (filter (passes_all_filters L d m s p) entries) rs" by simp
  with e ok show ?thesis by blast
qed

lemma get_endpoints_all_pass:
  assumes "get_endpoints L har_data d m s p = Inr rs"
  shows "\<forall>r\<in>set rs. record_passes L d m s p r"
proof -
  from assms obtain entries where
    l: "endpoints_loop (process_entry L d m s p) entries [] = Inr rs"
    unfolding get_endpoints_doc_entries bind_err_Inr_iff by blast
  have "\<forall>e r. process_entry L d m s p e = Inr (Some r) \<longrightarrow> record_passes L d m s p r"
    using process_entry_record_passes by blast
  with l show ?thesis by (rule endpoints_loop_all_records) simp
qed

lemma get_endpoints_add_domain:
  assumes "d \<noteq> []" and "get_endpoints L har_data None m s p = Inr rs"
  shows "get_endpoints L har_data (Some d) m s p = Inr (filter (\<lambda>r. domain r = PStr d) rs)"
proof -
  from assms(2) obtain entries where
    e: "doc_entries har_data = Inr entries" and
    l: "endpoints_loop (process_entry L None m s p) entries [] = Inr rs"
    unfolding get_endpoints_doc_entries bind_err_Inr_iff by blast
  from endpoints_loop_refilter [OF l, of "process_entry L (Some d) m s p" "\<lambda>r. domain r = PStr d"]
    process_entry_add_domain [OF _ assms(1)]
  have "endpoints_loop (process_entry L (Some d) m s p) entries []
          = Inr (filter (\<lambda>r. domain r = PStr d) rs)" by simp
  with e show ?thesis unfolding get_endpoints_doc_entries by simp
qed

lemma get_endpoints_add_status:
  assumes "n \<noteq> 0" and "get_endpoints L har_data d m None p = Inr rs"
  shows "get_endpoints L har_data d m (Some n) p
           = Inr (filter (\<lambda>r. py_eq_int (status_code r) n) rs)"
proof -
  from assms(2) obtain entries where
    e: "doc_entries har_data = Inr entries" and
    l: "endpoints_loop (process_entry L d m None p) entries [] = Inr rs"
    unfolding get_endpoints_doc_entries bind_err_Inr_iff by blast
  from endpoints_loop_refilter [OF l, of "process_entry L d m (Some n) p"
      "\<lambda>r. py_eq_int (status_code r) n"] process_entry_add_status [OF _ assms(1)]
  have "endpoints_loop (process_entry L d m (Some n) p) entries []
          = Inr (filter (\<lambda>r. py_eq_int (status_code r) n) rs)" by simp
  with e show ?thesis unfolding get_endpoints_doc_entries by simp
qed

lemma status_selected:
  assumes "n \<noteq> 0" and "get_endpoints L har_data d m (Some n) p = Inr rs" and "r \<in> set rs"
  shows "py_eq_int (status_code r) n \<and> \<not> py_eq_int (status_code r) 0"
proof -
  from get_endpoints_all_pass [OF assms(2)] assms(3) have "record_passes L d m (Some n) p r"
    by blast
  with assms(1) have "py_eq_int (status_code r) n"
    by (simp add: record_passes_def status_filter_rejects_def)
  with assms(1) show ?thesis by (simp add: py_eq_int_nonzero)
qed

subsection \<open>Documents without the entries list\<close>

text \<open>
  The two membership tests that open \<^verbatim>\<open>get_endpoints\<close> and \<^verbatim>\<open>get_unique_domains\<close>: a test
  that finds nothing gives the empty result, a test that raises makes the function raise.
\<close>

lemma not_in_document_empty:
  assumes "py_contains ''log'' har_data = Inr False"
  shows "get_endpoints L har_data d m s p = Inr [] \<and> get_unique_domains L har_data = Inr {}"
  using assms by (simp add: get_endpoints_def get_unique_domains_def)

lemma not_in_log_empty:
  assumes "map_of kvs ''log'' = Some lg" and "py_contains ''entries'' lg = Inr False"
  shows "get_endpoints L (PDict kvs) d m s p = Inr [] \<and> get_unique_domains L (PDict kvs) = Inr {}"
  using assms by (simp add: get_endpoints_def get_unique_domains_def)

lemma py_contains_raises:
  assumes "\<forall>kvs. v \<noteq> PDict kvs" and "\<forall>xs. v \<noteq> PList xs" and "\<forall>t. v \<noteq> PStr t"
  shows "py_contains k v = Inl TypeError"
  using assms by (cases v) simp_all

lemma document_membership_raises:
  assumes "py_contains ''log'' har_data = Inl e"
  shows "get_endpoints L har_data d m s p = Inl e \<and> get_unique_domains L har_data = Inl e"
  using assms by (simp add: get_endpoints_def get_unique_domains_def)

lemma log_membership_raises:
  assumes "map_of kvs ''log'' = Some lg" and "py_contains ''entries'' lg = Inl e"
  shows "get_endpoints L (PDict kvs) d m s p = Inl e \<and> get_unique_domains L (PDict kvs) = Inl e"
  using assms by (simp add: get_endpoints_def get_unique_domains_def)

section \<open>The claims\<close>

subsection \<open>C1: one record per passing entry, in document order\<close>

text \<open>
  C1. \<^verbatim>\<open>get_endpoints\<close> returns a list exactly when the body of its loop raises on no
  entry of the document, and the list it returns holds, in document order, one record for
  each entry that passes all active filters and none for the others: the records stand
  in one-to-one correspondence with the passing entries, each record being the record of
  its own entry. So no two entries are merged and no entry is split.
\<close>

theorem one_record_per_passing_entry:
  "get_endpoints L har_data d m s p = Inr rs \<longleftrightarrow>
     (\<exists>entries. doc_entries har_data = Inr entries \<and>
        (\<forall>entry\<in>set entries. \<exists>x. process_entry L d m s p entry = Inr x) \<and>
        list_all2 (\<lambda>entry r. entry_record L entry = Inr (Some r))
          (filter (passes_all_filters L d m s p) entries) rs)"
proof
  assume "get_endpoints L har_data d m s p = Inr rs"
  from get_endpoints_records [OF this] obtain entries where
    e: "doc_entries har_data = Inr entries"
      "\<forall>entry\<in>set entries. \<exists>x. process_entry L d m s p entry = Inr x" and
    la: "list_all2 (\<lambda>entry r. process_entry L d m s p entry = Inr (Some r))
          (filter (passes_all_filters L d m s p) entries) rs" by blast
  from la have "list_all2 (\<lambda>entry r. entry_record L entry = Inr (Some r))
          (filter (passes_all_filters L d m s p) entries) rs"
    by (rule list_all2_mono) (rule process_entry_Some(2))
  with e show "\<exists>entries. doc_entries har_data = Inr entries \<and>
        (\<forall>entry\<in>set entries. \<exists>x. process_entry L d m s p entry = Inr x) \<and>
        list_all2 (\<lambda>entry r. entry_record L entry = Inr (Some r))
          (filter (passes_all_filters L d m s p) entries) rs" by blast
next
  assume "\<exists>entries. doc_entries har_data = Inr entries \<and>
        (\<forall>entry\<in>set entries. \<exists>x. process_entry L d m s p entry = Inr x) \<and>
        list_all2 (\<lambda>entry r. entry_record L entry = Inr (Some r))
          (filter (passes_all_filters L d m s p) entries) rs"
  then obtain entries where
    e: "doc_entries har_data = Inr entries" and
    ok: "\<forall>entry\<in>set entries. \<exists>x. process_entry L d m s p entry = Inr x" and
    la: "list_all2 (\<lambda>entry r. entry_record L entry = Inr (Some r))
          (filter (passes_all_filters L d m s p) entries) rs" by blast
  from endpoints_loop_total [OF ok] obtain rs' where
    l: "endpoints_loop (process_entry L d m s p) entries [] = Inr rs'" by blast
  with e have g: "get_endpoints L har_data d m s p = Inr rs'"
    by (simp add: get_endpoints_doc_entries)
  from get_endpoints_records [OF g] e have
    "list_all2 (\<lambda>entry r. process_entry L d m s p entry = Inr (Some r))
          (filter (passes_all_filters L d m s p) entries) rs'" by auto
  then have "list_all2 (\<lambda>entry r. entry_record L entry = Inr (Some r))
          (filter (passes_all_filters L d m s p) entries) rs'"
    by (rule list_all2_mono) (rule process_entry_Some(2))
  from this la have "rs' = rs"
    by (rule list_all2_functional) simp
  with g show "get_endpoints L har_data d m s p = Inr rs" by simp
qed

text \<open>On the test document, a method filter \<^verbatim>\<open>POST\<close> keeps the second entry.\<close>

theorem one_record_per_passing_entry_witness:
  "get_endpoints example_lib test_har None (Some ''POST'') None None = Inr [post_record] \<and>
   (\<exists>entries. doc_entries test_har = Inr entries \<and>
        (\<forall>entry\<in>set entries. \<exists>x.
            process_entry example_lib None (Some ''POST'') None None entry = Inr x) \<and>
        list_all2 (\<lambda>entry r. entry_record example_lib entry = Inr (Some r))
          (filter (passes_all_filters example_lib None (Some ''POST'') None None) entries)
          [post_record])"
proof -
  have h: "get_endpoints example_lib test_har None (Some ''POST'') None None = Inr [post_record]"
    by code_simp
  from one_record_per_passing_entry [of example_lib test_har None "Some ''POST''" None None
      "[post_record]"] h
  show ?thesis by blast
qed

subsection \<open>C2: documents without the entries list\<close>

text \<open>
  C2, as stated, fails: a \<^verbatim>\<open>log\<close> that is \<^verbatim>\<open>null\<close> has no \<^verbatim>\<open>entries\<close> key, and the test
  \<^verbatim>\<open>'entries' not in self.har_data['log']\<close> raises \<^verbatim>\<open>TypeError\<close> on it, in both functions.
\<close>

theorem null_log_raises:
  "py_getitem null_log_har ''log'' = Inr PNone \<and>
   get_endpoints example_lib null_log_har None None None None = Inl TypeError \<and>
   get_unique_domains example_lib null_log_har = Inl TypeError"
  by code_simp

text \<open>
  C2, amended. \<^verbatim>\<open>get_endpoints\<close>, whatever the filters, returns the empty list and
  \<^verbatim>\<open>get_unique_domains\<close> returns the empty set, neither raising, for every document of one
  of these forms:
  \<^item> an object without a \<^verbatim>\<open>log\<close> key, an array without the element \<^verbatim>\<open>'log'\<close>, or a string in
    which \<^verbatim>\<open>log\<close> does not occur;
  \<^item> an object whose \<^verbatim>\<open>log\<close> is an object without an \<^verbatim>\<open>entries\<close> key, an array without the
    element \<^verbatim>\<open>'entries'\<close>, or a string in which \<^verbatim>\<open>entries\<close> does not occur.

  Both functions raise \<^verbatim>\<open>TypeError\<close> for every document that is neither an object, an array
  nor a string (\<^verbatim>\<open>null\<close>, a boolean, a number), and for every object whose \<^verbatim>\<open>log\<close> is neither
  an object, an array nor a string.
\<close>

theorem missing_keys_give_empty_results:
  "((\<exists>kvs. har_data = PDict kvs \<and> map_of kvs ''log'' = None) \<or>
    (\<exists>xs. har_data = PList xs \<and> PStr ''log'' \<notin> set xs) \<or>
    (\<exists>t. har_data = PStr t \<and> \<not> is_substring ''log'' t) \<or>
    (\<exists>kvs lg. har_data = PDict kvs \<and> map_of kvs ''log'' = Some (PDict lg) \<and>
       map_of lg ''entries'' = None) \<or>
    (\<exists>kvs xs. har_data = PDict kvs \<and> map_of kvs ''log'' = Some (PList xs) \<and>
       PStr ''entries'' \<notin> set xs) \<or>
    (\<exists>kvs t. har_data = PDict kvs \<and> map_of kvs ''log'' = Some (PStr t) \<and>
       \<not> is_substring ''entries'' t)
    \<longrightarrow> get_endpoints L har_data d m s p = Inr [] \<and> get_unique_domains L har_data = Inr {}) \<and>
   (((\<forall>kvs. har_data \<noteq> PDict kvs) \<and> (\<forall>xs. har_data \<noteq> PList xs) \<and> (\<forall>t. har_data \<noteq> PStr t)) \<or>
    (\<exists>kvs lg. har_data = PDict kvs \<and> map_of kvs ''log'' = Some lg \<and>
       (\<forall>e. lg \<noteq> PDict e) \<and> (\<forall>xs. lg \<noteq> PList xs) \<and> (\<forall>t. lg \<noteq> PStr t))
    \<longrightarrow> get_endpoints L har_data d m s p = Inl TypeError \<and>
        get_unique_domains L har_data = Inl TypeError)"
proof (intro conjI impI)
  assume "(\<exists>kvs. har_data = PDict kvs \<and> map_of kvs ''log'' = None) \<or>
    (\<exists>xs. har_data = PList xs \<and> PStr ''log'' \<notin> set xs) \<or>
    (\<exists>t. har_data = PStr t \<and> \<not> is_substring ''log'' t) \<or>
    (\<exists>kvs lg. har_data = PDict kvs \<and> map_of kvs ''log'' = Some (PDict lg) \<and>
       map_of lg ''entries'' = None) \<or>
    (\<exists>kvs xs. har_data = PDict kvs \<and> map_of kvs ''log'' = Some (PList xs) \<and>
       PStr ''entries'' \<notin> set xs) \<or>
    (\<exists>kvs t. har_data = PDict kvs \<and> map_of kvs ''log'' = Some (PStr t) \<and>
       \<not> is_substring ''entries'' t)"
  then have c: "py_contains ''log'' har_data = Inr False \<or>
    (\<exists>kvs lg. har_data = PDict kvs \<and> map_of kvs ''log'' = Some lg \<and>
       py_contains ''entries'' lg = Inr False)"
    by (elim disjE exE conjE) simp_all
  from c show "get_endpoints L har_data d m s p = Inr []"
    using not_in_document_empty [of har_data L d m s p] not_in_log_empty [of _ _ L d m s p]
    by blast
  from c show "get_unique_domains L har_data = Inr {}"
    using not_in_document_empty [of har_data L d m s p] not_in_log_empty [of _ _ L d m s p]
    by blast
next
  assume "((\<forall>kvs. har_data \<noteq> PDict kvs) \<and> (\<forall>xs. har_data \<noteq> PList xs) \<and> (\<forall>t. har_data \<noteq> PStr t)) \<or>
    (\<exists>kvs lg. har_data = PDict kvs \<and> map_of kvs ''log'' = Some lg \<and>
       (\<forall>e. lg \<noteq> PDict e) \<and> (\<forall>xs. lg \<noteq> PList xs) \<and> (\<forall>t. lg \<noteq> PStr t))"
  then have c: "py_contains ''log'' har_data = Inl TypeError \<or>
    (\<exists>kvs lg. har_data = PDict kvs \<and> map_of kvs ''log'' = Some lg \<and>
       py_contains ''entries'' lg = Inl TypeError)"
    using py_contains_raises by blast
  from c show "get_endpoints L har_data d m s p = Inl TypeError"
    using document_membership_raises [of har_data TypeError L d m s p]
      log_membership_raises [of _ _ TypeError L d m s p]
    by blast
  from c show "get_unique_domains L har_data = Inl TypeError"
    using document_membership_raises [of har_data TypeError L d m s p]
      log_membership_raises [of _ _ TypeError L d m s p]
    by blast
qed

text \<open>
  The empty object of the test suite; a \<^verbatim>\<open>log\<close> that is an object with a version only, an
  empty array, a string; a document that is an empty array, a string; and, raising, a
  \<^verbatim>\<open>log\<close> that is a number or a boolean, and a document that is a number.
\<close>

theorem missing_keys_give_empty_results_witness:
  "get_endpoints example_lib (PDict []) None None None None = Inr [] \<and>
   get_unique_domains example_lib (PDict []) = Inr {} \<and>
   get_endpoints example_lib (PDict [(''log'', PDict [(''version'', PStr ''1.2'')])])
     (Some ''example.com'') None (Some 200) None = Inr [] \<and>
   get_unique_domains example_lib (PDict [(''log'', PDict [(''version'', PStr ''1.2'')])]) = Inr {} \<and>
   get_endpoints example_lib (PDict [(''log'', PList [])]) None None None None = Inr [] \<and>
   get_unique_domains example_lib (PDict [(''log'', PList [])]) = Inr {} \<and>
   get_endpoints example_lib (PDict [(''log'', PStr ''1.2'')]) None None None None = Inr [] \<and>
   get_unique_domains example_lib (PDict [(''log'', PStr ''1.2'')]) = Inr {} \<and>
   get_endpoints example_lib (PList []) None None None None = Inr [] \<and>
   get_unique_domains example_lib (PList []) = Inr {} \<and>
   get_endpoints example_lib (PStr ''har'') None None None None = Inr [] \<and>
   get_unique_domains example_lib (PStr ''har'') = Inr {} \<and>
   get_endpoints example_lib (PDict [(''log'', PInt 5)]) None None None None = Inl TypeError \<and>
   get_unique_domains example_lib (PDict [(''log'', PInt 5)]) = Inl TypeError \<and>
   get_endpoints example_lib (PDict [(''log'', PBool True)]) None None None None = Inl TypeError \<and>
   get_unique_domains example_lib (PDict [(''log'', PBool True)]) = Inl TypeError \<and>
   get_endpoints example_lib (PInt 5) None None None None = Inl TypeError \<and>
   get_unique_domains example_lib (PInt 5) = Inl TypeError"
proof -
  have s: "\<not> is_substring ''entries'' ''1.2''" "\<not> is_substring ''log'' ''har''" by code_simp+
  note t = missing_keys_give_empty_results [where L = example_lib and d = None and m = None and s = None and p = None]
  from t [of "PDict []"]
    missing_keys_give_empty_results [of "PDict [(''log'', PDict [(''version'', PStr ''1.2'')])]" example_lib
      "Some ''example.com''" None "Some 200" None]
    t [of "PDict [(''log'', PList [])]"] t [of "PDict [(''log'', PStr ''1.2'')]"]
    t [of "PList []"] t [of "PStr ''har''"]
    t [of "PDict [(''log'', PInt 5)]"] t [of "PDict [(''log'', PBool True)]"] t [of "PInt 5"] s
  show ?thesis by simp
qed

subsection \<open>C3: the status filter\<close>

text \<open>
  C3. A status filter of 0 is the same call as no status filter. For a nonzero integer
  \<open>n\<close>: when the call without status filter returns, the call with status filter \<open>n\<close>
  returns those of its records whose status equals \<open>n\<close> (as Python compares a value with
  an integer), in the same order; and every record a call with status filter \<open>n\<close> returns
  has a status equal to \<open>n\<close>, hence not equal to 0. So no value of the filter selects the
  entries whose status is 0.
\<close>

theorem status_filter_zero_is_unset:
  "get_endpoints L har_data d m (Some 0) p = get_endpoints L har_data d m None p \<and>
   (\<forall>(n::int) rs. n \<noteq> 0 \<and> get_endpoints L har_data d m None p = Inr rs \<longrightarrow>
      get_endpoints L har_data d m (Some n) p
        = Inr (filter (\<lambda>r. py_eq_int (status_code r) n) rs)) \<and>
   (\<forall>(n::int) rs. n \<noteq> 0 \<and> get_endpoints L har_data d m (Some n) p = Inr rs \<longrightarrow>
      (\<forall>r\<in>set rs. py_eq_int (status_code r) n \<and> \<not> py_eq_int (status_code r) 0))"
proof (intro conjI allI impI ballI)
  show "get_endpoints L har_data d m (Some 0) p = get_endpoints L har_data d m None p"
    by (rule get_endpoints_zero_status)
next
  fix n :: int and rs
  assume "n \<noteq> 0 \<and> get_endpoints L har_data d m None p = Inr rs"
  then show "get_endpoints L har_data d m (Some n) p
        = Inr (filter (\<lambda>r. py_eq_int (status_code r) n) rs)"
    by (simp add: get_endpoints_add_status)
next
  fix n :: int and rs r
  assume "n \<noteq> 0 \<and> get_endpoints L har_data d m (Some n) p = Inr rs" and "r \<in> set rs"
  then show "py_eq_int (status_code r) n" and "\<not> py_eq_int (status_code r) 0"
    using status_selected [of n L har_data d m p rs r] by simp_all
qed

text \<open>Both test entries have status 200.\<close>

theorem status_filter_zero_is_unset_witness:
  "get_endpoints example_lib test_har None None (Some 0) None
     = get_endpoints example_lib test_har None None None None \<and>
   get_endpoints example_lib test_har None None (Some 200) None = Inr [get_record, post_record] \<and>
   get_endpoints example_lib test_har None None (Some 404) None = Inr []"
proof -
  have h: "get_endpoints example_lib test_har None None None None = Inr [get_record, post_record]"
    by code_simp
  have f: "filter (\<lambda>r. py_eq_int (status_code r) 200) [get_record, post_record]
             = [get_record, post_record]"
    "filter (\<lambda>r. py_eq_int (status_code r) 404) [get_record, post_record] = []"
    by code_simp+
  from status_filter_zero_is_unset [of example_lib test_har None None None]
  have z: "get_endpoints example_lib test_har None None (Some 0) None
             = get_endpoints example_lib test_har None None None None"
    and a: "\<And>(n::int) rs. n \<noteq> 0 \<Longrightarrow>
              get_endpoints example_lib test_har None None None None = Inr rs \<Longrightarrow>
              get_endpoints example_lib test_har None None (Some n) None
                = Inr (filter (\<lambda>r. py_eq_int (status_code r) n) rs)"
    by blast+
  from a [OF _ h, of 200] a [OF _ h, of 404] f z show ?thesis by simp
qed

subsection \<open>C4: the domain filter\<close>

text \<open>
  C4, as stated, fails for the empty string: \<^verbatim>\<open>if domain and ...\<close> takes it for no filter,
  so the call returns every record, while no record of the test document has an empty
  domain.
\<close>

theorem empty_domain_filter_selects_all:
  "get_endpoints example_lib test_har None None None None = Inr [get_record, post_record] \<and>
   filter (\<lambda>r. domain r = PStr []) [get_record, post_record] = [] \<and>
   get_endpoints example_lib test_har (Some []) None None None = Inr [get_record, post_record]"
  by code_simp

text \<open>
  C4, amended. For every document and every domain filter string \<open>d\<close> that is not empty:
  when the call without domain filter (the other filters kept) returns, the call with
  domain filter \<open>d\<close> returns those of its records whose domain field is the string \<open>d\<close>,
  character for character, in the same order. The empty string is the same call as no
  domain filter.
\<close>

theorem domain_filter_exact_match:
  "get_endpoints L har_data (Some []) m s p = get_endpoints L har_data None m s p \<and>
   (\<forall>dom rs. dom \<noteq> [] \<and> get_endpoints L har_data None m s p = Inr rs \<longrightarrow>
      get_endpoints L har_data (Some dom) m s p = Inr (filter (\<lambda>r. domain r = PStr dom) rs))"
  using get_endpoints_empty_domain get_endpoints_add_domain
  by blast

text \<open>The test \<^verbatim>\<open>test_filter_by_domain\<close>.\<close>

theorem domain_filter_exact_match_witness:
  "get_endpoints example_lib test_har (Some ''api.example.com'') None None None = Inr [get_record] \<and>
   get_endpoints example_lib test_har (Some ''API.example.com'') None None None = Inr []"
proof -
  have h: "get_endpoints example_lib test_har None None None None = Inr [get_record, post_record]"
    by code_simp
  have f: "filter (\<lambda>r. domain r = PStr ''api.example.com'') [get_record, post_record] = [get_record]"
    "filter (\<lambda>r. domain r = PStr ''API.example.com'') [get_record, post_record] = []"
    by code_simp+
  have n: "''api.example.com'' \<noteq> []" "''API.example.com'' \<noteq> []" by simp_all
  from domain_filter_exact_match [of example_lib test_har None None None] h f n
  show ?thesis by simp
qed

subsection \<open>C5: filtering once more, and in another order\<close>

text \<open>
  C5. When \<^verbatim>\<open>get_endpoints\<close> returns, applying the four tests of the same filter set to the
  fields of the records it returned removes none of them; and a loop body that makes the
  same four tests in any other order (every test once), whenever it returns as well,
  returns the same list. (A body with another order may raise where the source's order
  returns and the other way round, since a pattern that is no regular expression raises
  only when the pattern test is reached; the statement speaks of the results.)
\<close>

theorem filtering_idempotent_order_free:
  assumes "get_endpoints L har_data d m s p = Inr rs"
  shows "filter (record_passes L d m s p) rs = rs \<and>
         (\<forall>order rs'. distinct order \<and> set order = {ByDomain, ByMethod, ByStatus, ByPattern} \<and>
            get_endpoints_in_order order L har_data d m s p = Inr rs' \<longrightarrow> rs' = rs)"
proof (intro conjI allI impI)
  from assms obtain entries where
    e: "doc_entries har_data = Inr entries" and
    l: "endpoints_loop (process_entry L d m s p) entries [] = Inr rs"
    unfolding get_endpoints_doc_entries bind_err_Inr_iff by blast
  from get_endpoints_all_pass [OF assms]
  show "filter (record_passes L d m s p) rs = rs" by simp
  fix order rs'
  assume a: "distinct order \<and> set order = {ByDomain, ByMethod, ByStatus, ByPattern} \<and>
            get_endpoints_in_order order L har_data d m s p = Inr rs'"
  then have l': "endpoints_loop (process_entry_in_order order L d m s p) entries [] = Inr rs'"
    using e by (simp add: get_endpoints_in_order_def)
  have s: "set order = set [ByDomain, ByMethod, ByStatus, ByPattern]" using a by simp
  have l0: "endpoints_loop (process_entry_in_order [ByDomain, ByMethod, ByStatus, ByPattern] L d m s p)
              entries [] = Inr rs"
    using l by (simp add: source_order)
  have "\<forall>e\<in>set entries. \<forall>x y. process_entry_in_order order L d m s p e = Inr x \<longrightarrow>
      process_entry_in_order [ByDomain, ByMethod, ByStatus, ByPattern] L d m s p e = Inr y \<longrightarrow> x = y"
    using process_entry_in_order_agree [OF s] by blast
  then show "rs' = rs" using l' l0 by (rule endpoints_loop_agree)
qed

text \<open>All four filters on the test document, and the four tests in the reverse order.\<close>

theorem filtering_idempotent_order_free_witness:
  "get_endpoints example_lib test_har (Some ''example.com'') (Some ''POST'') (Some 200)
     (Some ''/log'') = Inr [post_record] \<and>
   filter (record_passes example_lib (Some ''example.com'') (Some ''POST'') (Some 200)
     (Some ''/log'')) [post_record] = [post_record] \<and>
   get_endpoints_in_order [ByPattern, ByStatus, ByMethod, ByDomain] example_lib test_har
     (Some ''example.com'') (Some ''POST'') (Some 200) (Some ''/log'') = Inr [post_record]"
proof -
  have h: "get_endpoints example_lib test_har (Some ''example.com'') (Some ''POST'') (Some 200)
     (Some ''/log'') = Inr [post_record]" by code_simp
  have o: "get_endpoints_in_order [ByPattern, ByStatus, ByMethod, ByDomain] example_lib test_har
     (Some ''example.com'') (Some ''POST'') (Some 200) (Some ''/log'') = Inr [post_record]"
    by code_simp
  from filtering_idempotent_order_free [OF h] h o show ?thesis by blast
qed

subsection \<open>C6: the API endpoints\<close>

text \<open>
  C6. \<^verbatim>\<open>get_api_endpoints\<close> without a pattern list is \<^verbatim>\<open>get_endpoints\<close> with no
  domain, method or status filter and the path pattern made of the six default patterns joined by
  a bar; with a pattern list, it is \<^verbatim>\<open>get_endpoints\<close> with the patterns of that list
  joined by a bar, and the defaults take no part.
\<close>

theorem api_endpoints_is_pattern_extraction:
  "get_api_endpoints L har_data None =
     get_endpoints L har_data None None None
       (Some (''/api/|/v'' @ [CHR 0x5C] @ ''d+/|/rest/|/graphql|/gql|'' @ [CHR 0x5C] @ ''.json$'')) \<and>
   (\<forall>ps. get_api_endpoints L har_data (Some ps) =
      get_endpoints L har_data None None None (Some (str_join ''|'' ps)))"
  by (simp add: get_api_endpoints_def default_api_patterns_def)

text \<open>
  The test \<^verbatim>\<open>test_get_api_endpoints\<close>: of the two test entries the defaults keep the one
  under \<^verbatim>\<open>/v1/\<close>; a list with the one pattern \<^verbatim>\<open>/login\<close> keeps the other.
\<close>

theorem api_endpoints_is_pattern_extraction_witness:
  "get_api_endpoints example_lib test_har None = Inr [get_record] \<and>
   get_api_endpoints example_lib test_har (Some [''/login'']) = Inr [post_record]"
proof -
  have a: "get_endpoints example_lib test_har None None None
       (Some (''/api/|/v'' @ [CHR 0x5C] @ ''d+/|/rest/|/graphql|/gql|'' @ [CHR 0x5C] @ ''.json$''))
     = Inr [get_record]" by code_simp
  have b: "get_endpoints example_lib test_har None None None (Some (str_join ''|'' [''/login'']))
     = Inr [post_record]" by code_simp
  from api_endpoints_is_pattern_extraction [of example_lib test_har] a b
  show ?thesis by simp
qed

subsection \<open>C7: URLs that do not parse\<close>

text \<open>
  C7, as stated, fails: \<^verbatim>\<open>urlparse\<close> is called outside any \<^verbatim>\<open>try\<close>, and it raises
  \<^verbatim>\<open>ValueError\<close> on a URL whose authority opens a bracket and does not close it. The
  extraction raises with it.
\<close>

theorem malformed_url_raises:
  "get_endpoints example_lib bad_url_har None None None None = Inl (ValueError ''Invalid IPv6 URL'')"
  by code_simp

text \<open>
  C7, amended. When \<^verbatim>\<open>get_endpoints\<close> returns, \<^verbatim>\<open>urlparse\<close> has returned on the URL of every
  entry of the document (a missing URL being the empty string), and each record carries,
  as protocol, domain and path, the scheme, authority and path that \<^verbatim>\<open>urlparse\<close> gave for
  the URL of its entry; the path pattern, when there is one, was searched in that path
  alone, and found. When \<^verbatim>\<open>urlparse\<close> (or reading the URL) raises on an entry and the body
  of the loop raised on no entry before it, \<^verbatim>\<open>get_endpoints\<close> raises that same error.
\<close>

theorem url_parsing_passes_through:
  "(get_endpoints L har_data d m s p = Inr rs \<longrightarrow>
      (\<exists>entries. doc_entries har_data = Inr entries \<and>
         (\<forall>entry\<in>set entries. \<exists>u. entry_url_parts L entry = Inr u) \<and>
         list_all2 (\<lambda>entry r. \<exists>u. entry_url_parts L entry = Inr u \<and>
                      protocol r = url_scheme u \<and> domain r = url_netloc u \<and>
                      path r = url_path u \<and>
                      pattern_filter_rejects L p (url_path u) = Inr False)
           (filter (passes_all_filters L d m s p) entries) rs)) \<and>
   (\<forall>before entry after e.
      doc_entries har_data = Inr (before @ entry # after) \<and>
      (\<forall>x\<in>set before. \<exists>y. process_entry L d m s p x = Inr y) \<and>
      entry_url_parts L entry = Inl e \<longrightarrow>
      get_endpoints L har_data d m s p = Inl e)"
proof (intro conjI impI allI)
  assume a: "get_endpoints L har_data d m s p = Inr rs"
  from get_endpoints_records [OF a] obtain entries where
    e: "doc_entries har_data = Inr entries" and
    ok: "\<forall>entry\<in>set entries. \<exists>x. process_entry L d m s p entry = Inr x" and
    la: "list_all2 (\<lambda>entry r. process_entry L d m s p entry = Inr (Some r))
          (filter (passes_all_filters L d m s p) entries) rs" by blast
  from ok have ok': "\<forall>entry\<in>set entries. \<exists>u. entry_url_parts L entry = Inr u"
    using process_entry_url_ok by blast
  from la have "list_all2 (\<lambda>entry r. \<exists>u. entry_url_parts L entry = Inr u \<and>
                      protocol r = url_scheme u \<and> domain r = url_netloc u \<and>
                      path r = url_path u \<and>
                      pattern_filter_rejects L p (url_path u) = Inr False)
      (filter (passes_all_filters L d m s p) entries) rs"
    by (rule list_all2_mono) (rule process_entry_url_components)
  with e ok' show "\<exists>entries. doc_entries har_data = Inr entries \<and>
         (\<forall>entry\<in>set entries. \<exists>u. entry_url_parts L entry = Inr u) \<and>
         list_all2 (\<lambda>entry r. \<exists>u. entry_url_parts L entry = Inr u \<and>
                      protocol r = url_scheme u \<and> domain r = url_netloc u \<and>
                      path r = url_path u \<and>
                      pattern_filter_rejects L p (url_path u) = Inr False)
           (filter (passes_all_filters L d m s p) entries) rs" by blast
next
  fix before entry after e
  assume a: "doc_entries har_data = Inr (before @ entry # after) \<and>
      (\<forall>x\<in>set before. \<exists>y. process_entry L d m s p x = Inr y) \<and>
      entry_url_parts L entry = Inl e"
  then have "process_entry L d m s p entry = Inl e" by (simp add: entry_url_parts_failure)
  with a have "endpoints_loop (process_entry L d m s p) (before @ entry # after) [] = Inl e"
    by (intro endpoints_loop_first_failure) simp_all
  with a show "get_endpoints L har_data d m s p = Inl e"
    by (simp add: get_endpoints_doc_entries)
qed

text \<open>
  The pattern \<^verbatim>\<open>/v1/\<close> on the test document; an entry without a request, whose record has
  the empty string for its three URL fields; and the same entry followed by the entry
  with the bad URL.
\<close>

theorem url_parsing_passes_through_witness:
  "(\<exists>entries. doc_entries test_har = Inr entries \<and>
         (\<forall>entry\<in>set entries. \<exists>u. entry_url_parts example_lib entry = Inr u) \<and>
         list_all2 (\<lambda>entry r. \<exists>u. entry_url_parts example_lib entry = Inr u \<and>
                      protocol r = url_scheme u \<and> domain r = url_netloc u \<and>
                      path r = url_path u \<and>
                      pattern_filter_rejects example_lib (Some ''/v1/'') (url_path u) = Inr False)
           (filter (passes_all_filters example_lib None None None (Some ''/v1/'')) entries)
           [get_record]) \<and>
   get_endpoints example_lib mixed_har None None None None = Inl (ValueError ''Invalid IPv6 URL'') \<and>
   get_endpoints example_lib (PDict [(''log'', PDict [(''entries'', PList [PDict []])])])
     None None None None = Inr [empty_record]"
proof -
  have h: "get_endpoints example_lib test_har None None None (Some ''/v1/'') = Inr [get_record]"
    by code_simp
  have d: "doc_entries mixed_har = Inr ([PDict []] @ bad_url_entry # [])" by code_simp
  have g: "\<forall>x\<in>set [PDict []]. \<exists>y. process_entry example_lib None None None None x = Inr y"
  proof -
    have "process_entry example_lib None None None None (PDict []) = Inr (Some empty_record)"
      by code_simp
    then show ?thesis by simp
  qed
  have b: "entry_url_parts example_lib bad_url_entry = Inl (ValueError ''Invalid IPv6 URL'')"
    by code_simp
  have k: "get_endpoints example_lib (PDict [(''log'', PDict [(''entries'', PList [PDict []])])])
     None None None None = Inr [empty_record]" by code_simp
  from url_parsing_passes_through [of example_lib test_har None None None "Some ''/v1/''"
      "[get_record]"] h
  have p1: "\<exists>entries. doc_entries test_har = Inr entries \<and>
         (\<forall>entry\<in>set entries. \<exists>u. entry_url_parts example_lib entry = Inr u) \<and>
         list_all2 (\<lambda>entry r. \<exists>u. entry_url_parts example_lib entry = Inr u \<and>
                      protocol r = url_scheme u \<and> domain r = url_netloc u \<and>
                      path r = url_path u \<and>
                      pattern_filter_rejects example_lib (Some ''/v1/'') (url_path u) = Inr False)
           (filter (passes_all_filters example_lib None None None (Some ''/v1/'')) entries)
           [get_record]" by blast
  from url_parsing_passes_through [of example_lib mixed_har None None None None] d g b
  have p2: "get_endpoints example_lib mixed_har None None None None
              = Inl (ValueError ''Invalid IPv6 URL'')" by blast
  from p1 p2 k show ?thesis by blast
qed

subsection \<open>C8: the CSV export\<close>

text \<open>
  C8. When the extension of the output file, in lower case, is \<^verbatim>\<open>.csv\<close>, the export
  writes the text \<^verbatim>\<open>No endpoints found\<close> for an empty list, and otherwise the header row
  \<^verbatim>\<open>url,method,protocol,domain,path,status_code,response_size,time\<close> followed by one row
  for each record, in order, of these eight fields of the record in this order. The
  query parameters, the headers and the post data are not written.
\<close>

theorem csv_export_content:
  assumes "str_lower (splitext_ext output_file) = ''.csv''"
  shows "export_endpoints L endpoints output_file =
           Inr (if endpoints = [] then ''No endpoints found''
                else csv_header @ concat (map (\<lambda>ep. csv_row (map (csv_field_text L)
                       [url ep, method ep, protocol ep, domain ep, path ep,
                        status_code ep, response_size ep, time ep])) endpoints))"
proof (cases endpoints)
  case Nil
  with assms show ?thesis by (simp add: export_endpoints_def)
next
  case (Cons ep eps)
  have h: "dictwriter_header (map fst (flat_ep ep)) = csv_header"
    by (simp add: dictwriter_header_def flat_ep_def csv_row_def csv_quote_def csv_special_def
        csv_header_def)
  have r: "dictwriter_row L (map fst (flat_ep ep)) (flat_ep e) =
      csv_row (map (csv_field_text L) [url e, method e, protocol e, domain e, path e,
                        status_code e, response_size e, time e])" for e
    by (simp add: dictwriter_row_def flat_ep_def)
  from assms Cons h r show ?thesis
    by (simp add: export_endpoints_def Let_def comp_def)
qed

text \<open>The two test records and the empty list, exported to \<^verbatim>\<open>out/output.CSV\<close>.\<close>

theorem csv_export_content_witness:
  "str_lower (splitext_ext ''out/output.CSV'') = ''.csv'' \<and>
   export_endpoints example_lib [get_record, post_record] ''out/output.CSV'' = Inr csv_example \<and>
   export_endpoints example_lib [] ''out/output.CSV'' = Inr ''No endpoints found''"
proof -
  have h: "str_lower (splitext_ext ''out/output.CSV'') = ''.csv''" by code_simp
  have r: "csv_header @ concat (map (\<lambda>ep. csv_row (map (csv_field_text example_lib)
                       [url ep, method ep, protocol ep, domain ep, path ep,
                        status_code ep, response_size ep, time ep])) [get_record, post_record])
           = csv_example" by code_simp
  from csv_export_content [OF h, of example_lib "[get_record, post_record]"]
    csv_export_content [OF h, of example_lib "[]"] h r
  show ?thesis by simp
qed

subsection \<open>C9: loading\<close>

text \<open>
  C9, as stated, fails: a file that exists and cannot be read makes \<^verbatim>\<open>open\<close> raise
  \<^verbatim>\<open>PermissionError\<close>, which \<^verbatim>\<open>_load_har_file\<close> does not catch; it is not turned into the
  error of a missing file.
\<close>

theorem unreadable_source_not_file_not_found:
  "load_har_file example_lib ''capture.har'' Unreadable = Inl PermissionError"
  by code_simp

text \<open>
  C9, amended. Loading raises \<^verbatim>\<open>FileNotFoundError\<close> exactly when the file is missing, with
  the message \<^verbatim>\<open>HAR file not found:\<close> and the path; it raises \<^verbatim>\<open>ValueError\<close> exactly when
  the file was read and its text is not JSON, with the message \<^verbatim>\<open>Invalid HAR file format:\<close>
  and the path; it raises \<^verbatim>\<open>PermissionError\<close> exactly when the file exists and cannot be
  read; and it returns a document exactly when the file was read and its text is JSON,
  the document being the decoded text, unchanged.
\<close>

theorem load_outcomes:
  "((\<exists>msg. load_har_file L har_file_path src = Inl (FileNotFoundError msg)) \<longleftrightarrow> src = Missing) \<and>
   ((\<exists>msg. load_har_file L har_file_path src = Inl (ValueError msg)) \<longleftrightarrow>
      (\<exists>content. src = Text content \<and> json_decode L content = None)) \<and>
   (load_har_file L har_file_path src = Inl PermissionError \<longleftrightarrow> src = Unreadable) \<and>
   (\<forall>doc. load_har_file L har_file_path src = Inr doc \<longleftrightarrow>
      (\<exists>content. src = Text content \<and> json_decode L content = Some doc)) \<and>
   (src = Missing \<longrightarrow> load_har_file L har_file_path src
      = Inl (FileNotFoundError (''HAR file not found: '' @ har_file_path))) \<and>
   (\<forall>content. src = Text content \<and> json_decode L content = None \<longrightarrow>
      load_har_file L har_file_path src
        = Inl (ValueError (''Invalid HAR file format: '' @ har_file_path)))"
  by (cases src) (auto simp: load_har_file_def open_read_def split: option.splits)

text \<open>The tests \<^verbatim>\<open>test_nonexistent_har_file\<close> and \<^verbatim>\<open>test_invalid_har_file\<close>, and an empty object.\<close>

theorem load_outcomes_witness:
  "load_har_file example_lib ''nonexistent.har'' Missing
     = Inl (FileNotFoundError ''HAR file not found: nonexistent.har'') \<and>
   load_har_file example_lib ''invalid.har'' (Text ''This is not a valid JSON file'')
     = Inl (ValueError ''Invalid HAR file format: invalid.har'') \<and>
   load_har_file example_lib ''empty.har'' (Text ''{}'') = Inr (PDict [])"
proof -
  have a: "json_decode example_lib ''This is not a valid JSON file'' = None" by code_simp
  have b: "json_decode example_lib ''{}'' = Some (PDict [])" by code_simp
  from load_outcomes [of example_lib "''nonexistent.har''" Missing]
    load_outcomes [of example_lib "''invalid.har''" "Text ''This is not a valid JSON file''"]
    load_outcomes [of example_lib "''empty.har''" "Text ''{}''"] a b
  show ?thesis by simp
qed

subsection \<open>C10: an empty pattern list\<close>

text \<open>
  C10. \<^verbatim>\<open>get_api_endpoints\<close> with the empty list joins no pattern into the empty string,
  which \<^verbatim>\<open>get_endpoints\<close> takes for no pattern: the call is \<^verbatim>\<open>get_endpoints\<close> with no
  filter at all, and returns every endpoint.
\<close>

theorem empty_pattern_list_returns_all:
  "get_api_endpoints L har_data (Some []) = get_endpoints L har_data None None None None"
  by (simp add: get_api_endpoints_def get_endpoints_empty_pattern)

text \<open>Both test entries are returned.\<close>

theorem empty_pattern_list_returns_all_witness:
  "get_api_endpoints example_lib test_har (Some []) = Inr [get_record, post_record]"
proof -
  have h: "get_endpoints example_lib test_har None None None None = Inr [get_record, post_record]"
    by code_simp
  from empty_pattern_list_returns_all [of example_lib test_har] h
  show ?thesis by simp
qed

end
